theory Spec2Isabelle
  imports Complex_Main "HOL-Library.Multiset" "HOL-Library.AList"
begin

section \<open>JavaScript values\<close>

text \<open>
  The timesheet keeps its document as a plain JavaScript object that comes out of
  \<^verbatim>\<open>JSON.parse\<close> or is built from form strings, so the values of the model are the
  JSON values. A string is a list of code units below 256. A number is a double: the
  rational it denotes, or one of the two infinities, which \<^verbatim>\<open>JSON.parse\<close> returns for a
  numeral beyond the range of the doubles such as \<^verbatim>\<open>1e400\<close> (it never returns
  \<^verbatim>\<open>NaN\<close>; the sign of zero is not kept). The keys of an object are distinct, and a
  lookup takes the first binding.
\<close>

datatype jnum = Fin rat | PosInf | NegInf

datatype jv =
    JNull
  | JBool bool
  | JNum jnum
  | JStr string
  | JArr "jv list"
  | JObj "(string \<times> jv) list"

text \<open>
  The result of reading a property: \<open>Undefined\<close>, a JSON value, or a built-in function
  object (\<^verbatim>\<open>Array.prototype.entries\<close> is the only one the program can meet).
\<close>

datatype pv = Undefined | Fn | Val jv

datatype error = TypeError | SyntaxError | ReadError

text \<open>
  \<^verbatim>\<open>x.k\<close> for the property names the program reads: \<^verbatim>\<open>entries\<close>, \<^verbatim>\<open>id\<close>,
  \<^verbatim>\<open>employee\<close>, \<^verbatim>\<open>day\<close>, \<^verbatim>\<open>timeIn\<close>, \<^verbatim>\<open>timeOut\<close>, \<^verbatim>\<open>notes\<close>, \<^verbatim>\<open>createdAt\<close>.
  None of them is on the prototype of an object, a string, a number or a boolean; an
  array inherits \<^verbatim>\<open>entries\<close>. Reading a property of \<^verbatim>\<open>null\<close> throws.
\<close>

fun get :: "jv \<Rightarrow> string \<Rightarrow> error + pv" where
  "get JNull k = Inl TypeError"
| "get (JObj kvs) k = Inr (case map_of kvs k of None \<Rightarrow> Undefined | Some v \<Rightarrow> Val v)"
| "get (JArr xs) k = Inr (if k = ''entries'' then Fn else Undefined)"
| "get (JBool b) k = Inr Undefined"
| "get (JNum n) k = Inr Undefined"
| "get (JStr s) k = Inr Undefined"

text \<open>ToBoolean.\<close>

fun truthy :: "pv \<Rightarrow> bool" where
  "truthy Undefined = False"
| "truthy Fn = True"
| "truthy (Val JNull) = False"
| "truthy (Val (JBool b)) = b"
| "truthy (Val (JNum n)) = (n \<noteq> Fin 0)"
| "truthy (Val (JStr s)) = (s \<noteq> [])"
| "truthy (Val (JArr xs)) = True"
| "truthy (Val (JObj kvs)) = True"

text \<open>\<^verbatim>\<open>Array.isArray\<close>.\<close>

fun isArray :: "pv \<Rightarrow> bool" where
  "isArray (Val (JArr xs)) = True"
| "isArray p = False"

text \<open>\<^verbatim>\<open>a || b\<close> on property values.\<close>

definition or_else :: "pv \<Rightarrow> pv \<Rightarrow> pv" where
  "or_else a b = (if truthy a then a else b)"

text \<open>
  \<^verbatim>\<open>String(v)\<close>. The digits of a finite number come from the platform's number
  formatting, which is a parameter. An object with an own \<^verbatim>\<open>toString\<close> key (never callable in
  parsed JSON) has no primitive value, and the conversion throws. An array joins its
  elements with commas, \<^verbatim>\<open>null\<close> elements as the empty string.
\<close>

fun String_js :: "(rat \<Rightarrow> string) \<Rightarrow> jv \<Rightarrow> error + string"
  and join_js :: "(rat \<Rightarrow> string) \<Rightarrow> jv list \<Rightarrow> error + string" where
  "String_js ns JNull = Inr ''null''"
| "String_js ns (JBool b) = Inr (if b then ''true'' else ''false'')"
| "String_js ns (JNum (Fin r)) = Inr (ns r)"
| "String_js ns (JNum PosInf) = Inr ''Infinity''"
| "String_js ns (JNum NegInf) = Inr ''-Infinity''"
| "String_js ns (JStr s) = Inr s"
| "String_js ns (JArr xs) = join_js ns xs"
| "String_js ns (JObj kvs) =
     (if ''toString'' \<in> set (map fst kvs) then Inl TypeError else Inr ''[object Object]'')"
| "join_js ns [] = Inr []"
| "join_js ns (x # xs) =
     (case (if x = JNull then Inr [] else String_js ns x) of
        Inl e \<Rightarrow> Inl e
      | Inr s \<Rightarrow>
          (if xs = [] then Inr s
           else case join_js ns xs of Inl e \<Rightarrow> Inl e | Inr r \<Rightarrow> Inr (s @ '','' @ r)))"

text \<open>
  \<^verbatim>\<open>String.prototype.trim\<close>: white space and line terminators among the code units
  below 256 are TAB, LF, VT, FF, CR, space and the no-break space.
\<close>

definition is_ws :: "char \<Rightarrow> bool" where
  "is_ws c = (of_char c \<in> {9, 10, 11, 12, 13, 32, 160 :: nat})"

definition trim :: "string \<Rightarrow> string" where
  "trim s = rev (dropWhile is_ws (rev (dropWhile is_ws s)))"

text \<open>
  \<^verbatim>\<open>Array.prototype.filter\<close> and \<^verbatim>\<open>find\<close> with a callback that can throw: the
  elements are visited in order, and the first exception ends the call.
\<close>

fun filterE :: "('a \<Rightarrow> error + bool) \<Rightarrow> 'a list \<Rightarrow> error + 'a list" where
  "filterE p [] = Inr []"
| "filterE p (x # xs) =
     (case p x of
        Inl e \<Rightarrow> Inl e
      | Inr b \<Rightarrow>
          (case filterE p xs of
             Inl e \<Rightarrow> Inl e
           | Inr ys \<Rightarrow> Inr (if b then x # ys else ys)))"

fun findE :: "('a \<Rightarrow> error + bool) \<Rightarrow> 'a list \<Rightarrow> error + 'a option" where
  "findE p [] = Inr None"
| "findE p (x # xs) =
     (case p x of
        Inl e \<Rightarrow> Inl e
      | Inr b \<Rightarrow> if b then Inr (Some x) else findE p xs)"

section \<open>Double arithmetic\<close>

text \<open>
  The hours are doubles. \<open>round_double\<close> rounds a rational to the nearest double, ties to
  the even significand, for the normal range (magnitudes from \<open>2\<^sup>-\<^sup>1\<^sup>0\<^sup>2\<^sup>2\<close> up to
  \<open>2\<^sup>1\<^sup>0\<^sup>2\<^sup>4\<close>, which holds every total of hours met here). The calculator takes the
  rounding as a parameter, so that the same code can also be read in exact arithmetic.
\<close>

fun bitlen_nat :: "nat \<Rightarrow> nat" where
  "bitlen_nat n = (if n = 0 then 0 else Suc (bitlen_nat (n div 2)))"

declare bitlen_nat.simps [simp del]

definition pow2 :: "int \<Rightarrow> rat" where
  "pow2 e = (if 0 \<le> e then 2 ^ nat e else 1 / 2 ^ nat (- e))"

text \<open>For \<open>a > 0\<close>, the exponent \<open>e\<close> with \<open>2\<^sup>e \<le> a < 2\<^sup>e\<^sup>+\<^sup>1\<close>.\<close>

definition ilog2 :: "rat \<Rightarrow> int" where
  "ilog2 a = (if 1 \<le> a then int (bitlen_nat (nat \<lfloor>a\<rfloor>)) - 1
              else - int (bitlen_nat (nat (\<lceil>1 / a\<rceil> - 1))))"

definition round_half_even :: "rat \<Rightarrow> int" where
  "round_half_even q =
     (let n = \<lfloor>q\<rfloor>; r = q - of_int n
      in if r < 1 / 2 then n else if 1 / 2 < r then n + 1 else if even n then n else n + 1)"

definition round_double :: "rat \<Rightarrow> rat" where
  "round_double x =
     (if x = 0 then 0
      else let u = pow2 (ilog2 \<bar>x\<bar> - 52) in of_int (round_half_even (x / u)) * u)"

section \<open>Calculator\<close>

definition DAYS :: "string list" where
  "DAYS = [''Monday'', ''Tuesday'', ''Wednesday'', ''Thursday'', ''Friday'', ''Saturday'',
           ''Sunday'']"

definition is_digit :: "char \<Rightarrow> bool" where
  "is_digit c = (48 \<le> (of_char c :: nat) \<and> (of_char c :: nat) \<le> 57)"

definition digit_val :: "char \<Rightarrow> int" where
  "digit_val c = int (of_char c) - 48"

definition dec_val :: "string \<Rightarrow> int" where
  "dec_val s = foldl (\<lambda>n c. 10 * n + digit_val c) 0 s"

text \<open>\<^verbatim>\<open>t.split(":")\<close>, with the piece being read kept reversed in \<open>acc\<close>.\<close>

fun split_acc :: "char \<Rightarrow> string \<Rightarrow> string \<Rightarrow> string list" where
  "split_acc c acc [] = [rev acc]"
| "split_acc c acc (x # xs) =
     (if x = c then rev acc # split_acc c [] xs else split_acc c (x # acc) xs)"

definition split :: "char \<Rightarrow> string \<Rightarrow> string list" where
  "split c s = split_acc c [] s"

text \<open>
  \<^verbatim>\<open>Number(s)\<close> on a string. The model follows the values that the arithmetic below
  keeps exact: the empty string is \<open>0\<close>, and a string of at most 14 decimal digits is its
  value (then \<open>hh * 60 + mm\<close> and the difference of two such sums stay below \<open>2\<^sup>5\<^sup>3\<close>).
  \<open>None\<close> is a number that the model does not follow: \<^verbatim>\<open>NaN\<close>, or the value of a
  string in another notation.
\<close>

definition Number_str :: "string \<Rightarrow> int option" where
  "Number_str s =
     (if s = [] then Some 0
      else if list_all is_digit s \<and> length s \<le> 14 then Some (dec_val s)
      else None)"

text \<open>
  \<^verbatim>\<open>const [hh, mm] = t.split(":").map(Number); return hh * 60 + mm;\<close> A string with no
  colon leaves \<^verbatim>\<open>mm\<close> undefined, and the sum is \<^verbatim>\<open>NaN\<close>.
\<close>

definition timeToMinutes :: "string \<Rightarrow> int option" where
  "timeToMinutes t =
     (case map Number_str (split CHR '':'' t) of
        hh # mm # rest \<Rightarrow>
          (case hh of
             None \<Rightarrow> None
           | Some h \<Rightarrow> (case mm of None \<Rightarrow> None | Some m \<Rightarrow> Some (h * 60 + m)))
      | _ \<Rightarrow> None)"

definition computeHours :: "(rat \<Rightarrow> rat) \<Rightarrow> string \<Rightarrow> string \<Rightarrow> rat option" where
  "computeHours rnd timeIn timeOut =
     (case timeToMinutes timeIn of
        None \<Rightarrow> None
      | Some inMin \<Rightarrow>
          (case timeToMinutes timeOut of
             None \<Rightarrow> None
           | Some outMin \<Rightarrow>
               (let diff = outMin - inMin;
                    diff = (if diff < 0 then diff + 24 * 60 else diff)
                in Some (rnd (of_int diff / 60)))))"

text \<open>\<^verbatim>\<open>a + b\<close> on numbers, where \<open>None\<close> stays \<open>None\<close>.\<close>

definition add_num :: "(rat \<Rightarrow> rat) \<Rightarrow> rat option \<Rightarrow> rat option \<Rightarrow> rat option" where
  "add_num rnd a b =
     (case a of None \<Rightarrow> None | Some x \<Rightarrow> (case b of None \<Rightarrow> None | Some y \<Rightarrow> Some (rnd (x + y))))"

text \<open>The predicate of \<^verbatim>\<open>state.entries.filter(e => e.day === day)\<close>.\<close>

definition same_day :: "string \<Rightarrow> jv \<Rightarrow> error + bool" where
  "same_day day e =
     (case get e ''day'' of Inl err \<Rightarrow> Inl err | Inr p \<Rightarrow> Inr (p = Val (JStr day)))"

text \<open>
  \<^verbatim>\<open>computeHours(entry.timeIn, entry.timeOut)\<close>: \<^verbatim>\<open>t.split\<close> is a function only on a
  string.
\<close>

definition entry_hours :: "(rat \<Rightarrow> rat) \<Rightarrow> jv \<Rightarrow> error + rat option" where
  "entry_hours rnd entry =
     (case get entry ''timeIn'' of
        Inr (Val (JStr a)) \<Rightarrow>
          (case get entry ''timeOut'' of
             Inr (Val (JStr b)) \<Rightarrow> Inr (computeHours rnd a b)
           | _ \<Rightarrow> Inl TypeError)
      | _ \<Rightarrow> Inl TypeError)"

text \<open>The inner loop of \<^verbatim>\<open>render\<close>: \<^verbatim>\<open>dayTotal += h\<close> over the entries of one day.\<close>

fun sum_hours :: "(rat \<Rightarrow> rat) \<Rightarrow> rat option \<Rightarrow> jv list \<Rightarrow> error + rat option" where
  "sum_hours rnd dayTotal [] = Inr dayTotal"
| "sum_hours rnd dayTotal (entry # es) =
     (case entry_hours rnd entry of
        Inl err \<Rightarrow> Inl err
      | Inr h \<Rightarrow> sum_hours rnd (add_num rnd dayTotal h) es)"

text \<open>
  \<^verbatim>\<open>hoursToFixed(h)\<close>, that is \<^verbatim>\<open>(Math.round(h * 100) / 100).toFixed(2)\<close>. The product and
  the quotient are rounded as doubles. \<^verbatim>\<open>Math.round\<close> takes the nearest whole number,
  the upper one of two. \<^verbatim>\<open>toFixed(2)\<close> takes the whole number \<open>n\<close> for which \<open>n / 100\<close> is
  nearest to its argument, the larger one of two, and writes its digits with a point
  before the last two (for magnitudes below \<open>10\<^sup>2\<^sup>1\<close>).
\<close>

fun show_nat :: "nat \<Rightarrow> string" where
  "show_nat n =
     (if n < 10 then [char_of (48 + n)] else show_nat (n div 10) @ [char_of (48 + n mod 10)])"

declare show_nat.simps [simp del]

definition two_places :: "nat \<Rightarrow> string" where
  "two_places n =
     (let ds = show_nat n;
          ds = replicate (3 - length ds) CHR ''0'' @ ds
      in take (length ds - 2) ds @ ''.'' @ drop (length ds - 2) ds)"

definition Math_round :: "rat \<Rightarrow> int" where
  "Math_round x = \<lfloor>x + 1 / 2\<rfloor>"

definition toFixed2 :: "rat \<Rightarrow> string" where
  "toFixed2 x = (if x < 0 then ''-'' else []) @ two_places (nat \<lfloor>\<bar>x\<bar> * 100 + 1 / 2\<rfloor>)"

definition hoursToFixed :: "(rat \<Rightarrow> rat) \<Rightarrow> rat \<Rightarrow> string" where
  "hoursToFixed rnd h = toFixed2 (rnd (of_int (Math_round (rnd (h * 100))) / 100))"

text \<open>
  The outer loop of \<^verbatim>\<open>render\<close> over \<^verbatim>\<open>DAYS\<close>. It keeps \<^verbatim>\<open>weekly\<close>, and it collects
  the texts that \<^verbatim>\<open>render\<close> writes into the page as totals: \<^verbatim>\<open>hoursToFixed(dayTotal)\<close>
  under each day, and at the end \<^verbatim>\<open>hoursToFixed(weekly)\<close>. The text of a number that
  the model does not follow is \<open>None\<close>. The rows of the entries are not kept.
\<close>

record totals =
  perDay :: "(string \<times> string option) list"
  weeklyTotal :: "string option"

fun days_loop ::
  "(rat \<Rightarrow> rat) \<Rightarrow> jv list \<Rightarrow> string list \<Rightarrow> (string \<times> string option) list \<Rightarrow> rat option
     \<Rightarrow> error + totals" where
  "days_loop rnd entries [] written weekly =
     Inr \<lparr>perDay = written, weeklyTotal = map_option (hoursToFixed rnd) weekly\<rparr>"
| "days_loop rnd entries (day # days) written weekly =
     (case filterE (same_day day) entries of
        Inl err \<Rightarrow> Inl err
      | Inr dayEntries \<Rightarrow>
          (case sum_hours rnd (Some 0) dayEntries of
             Inl err \<Rightarrow> Inl err
           | Inr dayTotal \<Rightarrow>
               days_loop rnd entries days
                 (written @ [(day, map_option (hoursToFixed rnd) dayTotal)])
                 (add_num rnd weekly dayTotal)))"

definition aggregate :: "(rat \<Rightarrow> rat) \<Rightarrow> jv list \<Rightarrow> error + totals" where
  "aggregate rnd entries = days_loop rnd entries DAYS [] (Some 0)"

section \<open>Store\<close>

text \<open>
  The platform functions that the store calls: \<^verbatim>\<open>JSON.parse\<close> (\<open>None\<close> is the
  \<^verbatim>\<open>SyntaxError\<close> it throws), \<^verbatim>\<open>JSON.stringify\<close>, and the formatting of a number as
  a string. They are parameters of the model.
\<close>

record platform =
  JSON_parse :: "string \<Rightarrow> jv option"
  JSON_stringify :: "jv \<Rightarrow> string"
  Number_toString :: "rat \<Rightarrow> string"

text \<open>
  The mutable variable \<^verbatim>\<open>state\<close>, and the item that \<^verbatim>\<open>localStorage\<close> holds under
  \<^verbatim>\<open>STORAGE_KEY\<close> (\<open>None\<close> when there is none).
\<close>

record world =
  state :: jv
  localStorage :: "string option"

text \<open>What a handler shows or leaves behind, in order.\<close>

datatype prompt = ConfirmDelete | ConfirmClear | ConfirmImport nat

text \<open>The values \<^verbatim>\<open>editEntry\<close> writes into the form: employee, day, timeIn, timeOut, notes.\<close>

datatype draft = Draft pv pv pv pv pv

datatype event = Alert string | Asked prompt | Prefill draft | Uncaught error

definition empty_doc :: jv where
  "empty_doc = JObj [(''entries'', JArr [])]"

text \<open>\<^verbatim>\<open>state.entries\<close>, when it is an array.\<close>

definition entries_of :: "jv \<Rightarrow> jv list option" where
  "entries_of st = (case get st ''entries'' of Inr (Val (JArr es)) \<Rightarrow> Some es | _ \<Rightarrow> None)"

text \<open>\<^verbatim>\<open>state.entries = es\<close>; \<^verbatim>\<open>state\<close> is an object all along.\<close>

fun set_entries :: "jv \<Rightarrow> jv list \<Rightarrow> jv" where
  "set_entries (JObj kvs) es = JObj (AList.update ''entries'' (JArr es) kvs)"
| "set_entries v es = v"

definition saveState :: "platform \<Rightarrow> world \<Rightarrow> world" where
  "saveState P w = w\<lparr>localStorage := Some (JSON_stringify P (state w))\<rparr>"

text \<open>The \<^verbatim>\<open>try\<close> block of \<^verbatim>\<open>loadState\<close>, and \<^verbatim>\<open>loadState\<close> with its \<^verbatim>\<open>catch\<close>.\<close>

definition loadState_try :: "platform \<Rightarrow> string option \<Rightarrow> error + jv" where
  "loadState_try P raw =
     (case raw of
        None \<Rightarrow> Inr empty_doc
      | Some r \<Rightarrow>
          if r = [] then Inr empty_doc
          else (case JSON_parse P r of
                  None \<Rightarrow> Inl SyntaxError
                | Some parsed \<Rightarrow>
                    (case get parsed ''entries'' of
                       Inl err \<Rightarrow> Inl err
                     | Inr p \<Rightarrow> if \<not> truthy p \<or> \<not> isArray p then Inr empty_doc else Inr parsed)))"

definition loadState :: "platform \<Rightarrow> string option \<Rightarrow> error + jv" where
  "loadState P raw = (case loadState_try P raw of Inl err \<Rightarrow> Inr empty_doc | Inr st \<Rightarrow> Inr st)"

text \<open>\<^verbatim>\<open>render\<close>, as far as it computes: the totals written, or the exception thrown.\<close>

definition render :: "jv \<Rightarrow> error + totals" where
  "render st =
     (case get st ''entries'' of
        Inr (Val (JArr es)) \<Rightarrow> aggregate round_double es
      | _ \<Rightarrow> Inl TypeError)"

definition render_events :: "jv \<Rightarrow> event list" where
  "render_events st = (case render st of Inl err \<Rightarrow> [Uncaught err] | Inr t \<Rightarrow> [])"

text \<open>
  \<^verbatim>\<open>addEntry\<close>. \<open>fresh\<close> holds what \<^verbatim>\<open>uid()\<close> and \<^verbatim>\<open>new Date().toISOString()\<close>
  return in this call.
\<close>

definition addEntry ::
  "platform \<Rightarrow> string \<times> string \<Rightarrow> string \<Rightarrow> string \<Rightarrow> string \<Rightarrow> string \<Rightarrow> string \<Rightarrow> world
     \<Rightarrow> event list \<times> world" where
  "addEntry P fresh employee day timeIn timeOut notes w =
     (case entries_of (state w) of
        None \<Rightarrow> ([Uncaught TypeError], w)
      | Some es \<Rightarrow>
          (let entry = JObj [(''id'', JStr (fst fresh)),
                             (''employee'', JStr (trim employee)),
                             (''day'', JStr day),
                             (''timeIn'', JStr timeIn),
                             (''timeOut'', JStr timeOut),
                             (''notes'', JStr (trim notes)),
                             (''createdAt'', JStr (snd fresh))];
               w' = saveState P (w\<lparr>state := set_entries (state w) (es @ [entry])\<rparr>)
           in (render_events (state w'), w')))"

text \<open>The submit handler of the form; its arguments are the values of the five fields.\<close>

definition submit ::
  "platform \<Rightarrow> string \<times> string \<Rightarrow> string \<Rightarrow> string \<Rightarrow> string \<Rightarrow> string \<Rightarrow> string \<Rightarrow> world
     \<Rightarrow> event list \<times> world" where
  "submit P fresh employee day timeIn timeOut notes w =
     (if trim employee = [] then ([Alert ''Please enter an employee name.''], w)
      else if timeIn = [] \<or> timeOut = [] then ([Alert ''Please enter time in and time out.''], w)
      else addEntry P fresh employee day timeIn timeOut notes w)"

text \<open>
  \<^verbatim>\<open>e.id === ident\<close> and \<^verbatim>\<open>e.id !== ident\<close> for an id that is a string, as \<^verbatim>\<open>uid()\<close>
  makes them: strict equality with a string holds for that string only.
\<close>

definition id_is :: "string \<Rightarrow> jv \<Rightarrow> error + bool" where
  "id_is ident e =
     (case get e ''id'' of Inl err \<Rightarrow> Inl err | Inr p \<Rightarrow> Inr (p = Val (JStr ident)))"

definition id_is_not :: "string \<Rightarrow> jv \<Rightarrow> error + bool" where
  "id_is_not ident e =
     (case get e ''id'' of Inl err \<Rightarrow> Inl err | Inr p \<Rightarrow> Inr (p \<noteq> Val (JStr ident)))"

text \<open>\<^verbatim>\<open>deleteEntry\<close>; \<open>ok\<close> is the answer to \<^verbatim>\<open>confirm\<close>.\<close>

definition deleteEntry :: "platform \<Rightarrow> bool \<Rightarrow> string \<Rightarrow> world \<Rightarrow> event list \<times> world" where
  "deleteEntry P ok ident w =
     (if \<not> ok then ([Asked ConfirmDelete], w)
      else (case entries_of (state w) of
              None \<Rightarrow> ([Asked ConfirmDelete, Uncaught TypeError], w)
            | Some es \<Rightarrow>
                (case filterE (id_is_not ident) es of
                   Inl err \<Rightarrow> ([Asked ConfirmDelete, Uncaught err], w)
                 | Inr es' \<Rightarrow>
                     (let w' = saveState P (w\<lparr>state := set_entries (state w) es'\<rparr>)
                      in (Asked ConfirmDelete # render_events (state w'), w')))))"

text \<open>A property of a value that is not \<^verbatim>\<open>null\<close>.\<close>

definition pget :: "jv \<Rightarrow> string \<Rightarrow> pv" where
  "pget x k = (case get x k of Inl err \<Rightarrow> Undefined | Inr p \<Rightarrow> p)"

definition draft_of :: "jv \<Rightarrow> draft" where
  "draft_of entry =
     Draft (pget entry ''employee'') (pget entry ''day'') (pget entry ''timeIn'')
       (pget entry ''timeOut'') (or_else (pget entry ''notes'') (Val (JStr [])))"

text \<open>
  \<^verbatim>\<open>editEntry\<close>: the form is filled from the first entry with the id, then the entries
  with the id are filtered out.
\<close>

definition editEntry :: "platform \<Rightarrow> string \<Rightarrow> world \<Rightarrow> event list \<times> world" where
  "editEntry P ident w =
     (case entries_of (state w) of
        None \<Rightarrow> ([Uncaught TypeError], w)
      | Some es \<Rightarrow>
          (case findE (id_is ident) es of
             Inl err \<Rightarrow> ([Uncaught err], w)
           | Inr None \<Rightarrow> ([], w)
           | Inr (Some entry) \<Rightarrow>
               if \<not> truthy (Val entry) then ([], w)
               else (case filterE (id_is_not ident) es of
                       Inl err \<Rightarrow> ([Prefill (draft_of entry), Uncaught err], w)
                     | Inr es' \<Rightarrow>
                         (let w' = saveState P (w\<lparr>state := set_entries (state w) es'\<rparr>)
                          in (Prefill (draft_of entry) # render_events (state w'), w')))))"

text \<open>The handler of the clear button.\<close>

definition clearAll :: "platform \<Rightarrow> bool \<Rightarrow> world \<Rightarrow> event list \<times> world" where
  "clearAll P ok w =
     (if \<not> ok then ([Asked ConfirmClear], w)
      else (let w' = saveState P (w\<lparr>state := empty_doc\<rparr>)
            in (Asked ConfirmClear # render_events (state w'), w')))"

subsection \<open>Import\<close>

text \<open>
  The filter of the import:
  \<^verbatim>\<open>x && DAYS.includes(x.day) && x.employee && x.timeIn && x.timeOut\<close>.
\<close>

definition keep :: "jv \<Rightarrow> bool" where
  "keep x =
     (truthy (Val x) \<and>
      (case pget x ''day'' of Val (JStr d) \<Rightarrow> d \<in> set DAYS | _ \<Rightarrow> False) \<and>
      truthy (pget x ''employee'') \<and> truthy (pget x ''timeIn'') \<and> truthy (pget x ''timeOut''))"

text \<open>\<^verbatim>\<open>String(p)\<close> on a property value.\<close>

definition String_pv :: "platform \<Rightarrow> pv \<Rightarrow> error + string" where
  "String_pv P p =
     (case p of
        Undefined \<Rightarrow> Inr ''undefined''
      | Fn \<Rightarrow> Inr ''function entries() { [native code] }''
      | Val v \<Rightarrow> String_js (Number_toString P) v)"

text \<open>A property of an object literal; one whose value is undefined reads as absent.\<close>

definition field :: "string \<Rightarrow> pv \<Rightarrow> (string \<times> jv) list" where
  "field k p = (case p of Val v \<Rightarrow> [(k, v)] | _ \<Rightarrow> [])"

text \<open>
  The object that the import makes of a candidate that passed the filter; \<open>fresh\<close> holds
  what \<^verbatim>\<open>uid()\<close> and \<^verbatim>\<open>new Date().toISOString()\<close> return if they are called for it.
\<close>

definition sanitize :: "platform \<Rightarrow> string \<times> string \<Rightarrow> jv \<Rightarrow> error + jv" where
  "sanitize P fresh x =
     (case String_pv P (pget x ''employee'') of
        Inl err \<Rightarrow> Inl err
      | Inr emp \<Rightarrow>
          (case (if truthy (pget x ''notes'') then String_pv P (pget x ''notes'') else Inr []) of
             Inl err \<Rightarrow> Inl err
           | Inr nts \<Rightarrow>
               Inr (JObj (field ''id'' (or_else (pget x ''id'') (Val (JStr (fst fresh)))) @
                          [(''employee'', JStr emp)] @
                          field ''day'' (pget x ''day'') @
                          field ''timeIn'' (pget x ''timeIn'') @
                          field ''timeOut'' (pget x ''timeOut'') @
                          [(''notes'', JStr nts)] @
                          field ''createdAt''
                            (or_else (pget x ''createdAt'') (Val (JStr (snd fresh))))))))"

text \<open>\<^verbatim>\<open>Array.prototype.map\<close> with a callback that can throw; \<open>i\<close> counts the elements.\<close>

fun mapE :: "(nat \<Rightarrow> 'a \<Rightarrow> error + 'b) \<Rightarrow> nat \<Rightarrow> 'a list \<Rightarrow> error + 'b list" where
  "mapE f i [] = Inr []"
| "mapE f i (x # xs) =
     (case f i x of
        Inl e \<Rightarrow> Inl e
      | Inr y \<Rightarrow> (case mapE f (Suc i) xs of Inl e \<Rightarrow> Inl e | Inr ys \<Rightarrow> Inr (y # ys)))"

definition cleaned :: "platform \<Rightarrow> (nat \<Rightarrow> string \<times> string) \<Rightarrow> jv list \<Rightarrow> error + jv list" where
  "cleaned P fresh cands = mapE (\<lambda>i x. sanitize P (fresh i) x) 0 (filter keep cands)"

text \<open>The file picked in the import control, as \<^verbatim>\<open>file.text()\<close> delivers it.\<close>

datatype file_input = NoFile | Unreadable | FileText string

definition import_failed :: string where
  "import_failed = ''Import failed. Make sure it's a valid JSON file.''"

definition not_a_timesheet :: string where
  "not_a_timesheet = ''That file doesn't look like a timesheet export.''"

text \<open>
  The change handler of the import control. Every exception of its \<^verbatim>\<open>try\<close> block,
  also one of the final \<^verbatim>\<open>render()\<close>, ends in the alert of the \<^verbatim>\<open>catch\<close>.
\<close>

definition importHandler ::
  "platform \<Rightarrow> (nat \<Rightarrow> string \<times> string) \<Rightarrow> bool \<Rightarrow> file_input \<Rightarrow> world \<Rightarrow> event list \<times> world" where
  "importHandler P fresh ok file w =
     (case file of
        NoFile \<Rightarrow> ([], w)
      | Unreadable \<Rightarrow> ([Alert import_failed], w)
      | FileText text \<Rightarrow>
          (case JSON_parse P text of
             None \<Rightarrow> ([Alert import_failed], w)
           | Some parsed \<Rightarrow>
               (case get parsed ''entries'' of
                  Inl err \<Rightarrow> ([Alert import_failed], w)
                | Inr p \<Rightarrow>
                    (case p of
                       Val (JArr cands) \<Rightarrow>
                         (case cleaned P fresh cands of
                            Inl err \<Rightarrow> ([Alert import_failed], w)
                          | Inr cl \<Rightarrow>
                              if \<not> ok then ([Asked (ConfirmImport (length cl))], w)
                              else (case entries_of (state w) of
                                      None \<Rightarrow>
                                        ([Asked (ConfirmImport (length cl)), Alert import_failed], w)
                                    | Some es \<Rightarrow>
                                        (let w' = saveState P
                                                    (w\<lparr>state := set_entries (state w) (es @ cl)\<rparr>)
                                         in (Asked (ConfirmImport (length cl)) #
                                               (case render (state w') of
                                                  Inl err \<Rightarrow> [Alert import_failed]
                                                | Inr t \<Rightarrow> []),
                                             w'))))
                     | _ \<Rightarrow> ([Alert not_a_timesheet], w)))))"

subsection \<open>Runs of the program\<close>

text \<open>
  Loading the script: \<^verbatim>\<open>let state = loadState()\<close>, with \<open>raw\<close> the item found in the
  storage.
\<close>

definition boot :: "platform \<Rightarrow> string option \<Rightarrow> error + world" where
  "boot P raw =
     (case loadState P raw of
        Inl err \<Rightarrow> Inl err
      | Inr st \<Rightarrow> Inr \<lparr>state = st, localStorage = raw\<rparr>)"

text \<open>
  One run of a handler. \<open>D\<close> is the set of values that the day control of the form can
  have; the page that defines the control is not part of the script. \<open>F\<close> is the set of
  files that the import control is given.
\<close>

inductive step ::
  "platform \<Rightarrow> string set \<Rightarrow> file_input set \<Rightarrow> world \<Rightarrow> world \<Rightarrow> bool" for P D F where
  step_submit:
    "day \<in> D \<Longrightarrow> step P D F w (snd (submit P fresh employee day timeIn timeOut notes w))"
| step_delete: "step P D F w (snd (deleteEntry P ok ident w))"
| step_edit: "step P D F w (snd (editEntry P ident w))"
| step_import: "picked \<in> F \<Longrightarrow> step P D F w (snd (importHandler P freshs ok picked w))"
| step_clear: "step P D F w (snd (clearAll P ok w))"

definition reachable ::
  "platform \<Rightarrow> string set \<Rightarrow> file_input set \<Rightarrow> string option \<Rightarrow> world \<Rightarrow> bool" where
  "reachable P D F raw w = (\<exists>w0. boot P raw = Inr w0 \<and> (step P D F)\<^sup>*\<^sup>* w0 w)"

section \<open>Notions of the specification\<close>

text \<open>
  A valid \<^verbatim>\<open>HH:MM\<close> string: two digits, a colon, two digits, the hour at most 23 and the
  minute at most 59.
\<close>

definition valid_hhmm :: "string \<Rightarrow> bool" where
  "valid_hhmm t =
     (case t of
        [h1, h2, c, m1, m2] \<Rightarrow>
          is_digit h1 \<and> is_digit h2 \<and> c = CHR '':'' \<and> is_digit m1 \<and> is_digit m2 \<and>
          10 * digit_val h1 + digit_val h2 \<le> 23 \<and> 10 * digit_val m1 + digit_val m2 \<le> 59
      | _ \<Rightarrow> False)"

text \<open>Minutes since midnight, \<open>hour * 60 + minute\<close>, read off the five characters.\<close>

definition minutes_since_midnight :: "string \<Rightarrow> int" where
  "minutes_since_midnight t =
     (10 * digit_val (t ! 0) + digit_val (t ! 1)) * 60 +
     (10 * digit_val (t ! 3) + digit_val (t ! 4))"

text \<open>
  The duration as the specification words it: the difference of the minutes, plus 1440
  when it is negative, divided by 60 (a division of doubles, so the quotient is rounded).
\<close>

definition durationHours_spec :: "(rat \<Rightarrow> rat) \<Rightarrow> string \<Rightarrow> string \<Rightarrow> rat" where
  "durationHours_spec rnd t_in t_out =
     (let d = minutes_since_midnight t_out - minutes_since_midnight t_in
      in rnd (of_int (if d < 0 then d + 1440 else d) / 60))"

text \<open>An entry has the id \<open>ident\<close>.\<close>

definition has_id :: "string \<Rightarrow> jv \<Rightarrow> bool" where
  "has_id ident e = (pget e ''id'' = Val (JStr ident))"

definition is_weekday :: "pv \<Rightarrow> bool" where
  "is_weekday p = (case p of Val (JStr d) \<Rightarrow> d \<in> set DAYS | _ \<Rightarrow> False)"

definition is_string :: "pv \<Rightarrow> bool" where
  "is_string p = (case p of Val (JStr s) \<Rightarrow> True | _ \<Rightarrow> False)"

definition nonempty_string :: "pv \<Rightarrow> bool" where
  "nonempty_string p = (case p of Val (JStr s) \<Rightarrow> s \<noteq> [] | _ \<Rightarrow> False)"

text \<open>
  The invariant of the data model: employee, timeIn and timeOut are non-empty strings and
  the day is one of the seven labels.
\<close>

definition entry_valid :: "jv \<Rightarrow> bool" where
  "entry_valid e =
     (nonempty_string (pget e ''employee'') \<and> nonempty_string (pget e ''timeIn'') \<and>
      nonempty_string (pget e ''timeOut'') \<and> is_weekday (pget e ''day''))"

text \<open>The stored text loads to a document whose entries are all valid.\<close>

definition loads_valid :: "platform \<Rightarrow> string option \<Rightarrow> bool" where
  "loads_valid P raw =
     (case loadState P raw of
        Inl err \<Rightarrow> False
      | Inr doc \<Rightarrow> (case entries_of doc of None \<Rightarrow> False | Some es \<Rightarrow> list_all entry_valid es))"

text \<open>
  The candidates of a file: the array under \<^verbatim>\<open>entries\<close> of the value that its text
  parses to.
\<close>

definition candidates :: "platform \<Rightarrow> file_input \<Rightarrow> jv list option" where
  "candidates P picked =
     (case picked of
        FileText t \<Rightarrow> (case JSON_parse P t of None \<Rightarrow> None | Some parsed \<Rightarrow> entries_of parsed)
      | _ \<Rightarrow> None)"

text \<open>
  A file typed as the data model types an entry: each of its candidates that passes the
  filter of the import has strings as its employee, timeIn and timeOut.
\<close>

definition typed_candidate :: "jv \<Rightarrow> bool" where
  "typed_candidate x =
     (is_string (pget x ''employee'') \<and> is_string (pget x ''timeIn'') \<and>
      is_string (pget x ''timeOut''))"

definition typed_file :: "platform \<Rightarrow> file_input \<Rightarrow> bool" where
  "typed_file P picked =
     (case candidates P picked of
        None \<Rightarrow> True
      | Some cands \<Rightarrow> list_all typed_candidate (filter keep cands))"






section \<open>Sample data\<close>

text \<open>An entry as \<^verbatim>\<open>addEntry\<close> stores it, and a document.\<close>

definition stored :: "string \<Rightarrow> string \<Rightarrow> string \<Rightarrow> string \<Rightarrow> string \<Rightarrow> jv" where
  "stored ident emp d a b =
     JObj [(''id'', JStr ident), (''employee'', JStr emp), (''day'', JStr d),
           (''timeIn'', JStr a), (''timeOut'', JStr b), (''notes'', JStr []),
           (''createdAt'', JStr ''2024-01-01T09:00:00.000Z'')]"

definition document :: "jv list \<Rightarrow> jv" where
  "document es = JObj [(''entries'', JArr es)]"

text \<open>Three shifts of a Monday, of 6, 12 and 18 minutes.\<close>

definition six :: jv where
  "six = stored ''a1'' ''Ann'' ''Monday'' ''09:00'' ''09:06''"

definition twelve :: jv where
  "twelve = stored ''a2'' ''Ann'' ''Monday'' ''09:00'' ''09:12''"


text \<open>JSON texts, each with the value it denotes.\<close>

definition ann_text :: string where
  "ann_text = ''{\"entries\":[{\"id\":\"k3f9\",\"employee\":\"Ann\",\"day\":\"Monday\",\"timeIn\":\"09:00\",\"timeOut\":\"17:30\",\"notes\":\"\",\"createdAt\":\"2024-01-01T09:00:00.000Z\"}]}''"

definition ann_doc :: jv where
  "ann_doc = document [stored ''k3f9'' ''Ann'' ''Monday'' ''09:00'' ''17:30'']"

definition funday_text :: string where
  "funday_text = ''{\"entries\":[{\"day\":\"Funday\"}]}''"

definition funday_doc :: jv where
  "funday_doc = document [JObj [(''day'', JStr ''Funday'')]]"

text \<open>
  A file whose entry has the number \<^verbatim>\<open>1e400\<close> as timeIn, which \<^verbatim>\<open>JSON.parse\<close> reads as
  infinity, and the text with \<^verbatim>\<open>null\<close> in its place.
\<close>

definition inf_text :: string where
  "inf_text = ''{\"entries\":[{\"id\":\"k3f9\",\"employee\":\"Ann\",\"day\":\"Monday\",\"timeIn\":1e400,\"timeOut\":\"17:30\"}]}''"

definition inf_doc :: jv where
  "inf_doc = document
     [JObj [(''id'', JStr ''k3f9''), (''employee'', JStr ''Ann''), (''day'', JStr ''Monday''),
            (''timeIn'', JNum PosInf), (''timeOut'', JStr ''17:30'')]]"

definition nulled_text :: string where
  "nulled_text = ''{\"entries\":[{\"id\":\"k3f9\",\"employee\":\"Ann\",\"day\":\"Monday\",\"timeIn\":null,\"timeOut\":\"17:30\",\"notes\":\"\",\"createdAt\":\"2024-01-01T09:00:00.000Z\"}]}''"

definition nulled_doc :: jv where
  "nulled_doc = document
     [JObj [(''id'', JStr ''k3f9''), (''employee'', JStr ''Ann''), (''day'', JStr ''Monday''),
            (''timeIn'', JNull), (''timeOut'', JStr ''17:30''), (''notes'', JStr []),
            (''createdAt'', JStr ''2024-01-01T09:00:00.000Z'')]]"

definition mixed_text :: string where
  "mixed_text = ''{\"entries\":[{\"id\":\"k3f9\",\"employee\":\"Bob\",\"day\":\"Tuesday\",\"timeIn\":\"08:00\",\"timeOut\":\"12:00\"},{\"id\":\"z\",\"employee\":\"Cy\",\"day\":\"Funday\",\"timeIn\":\"08:00\",\"timeOut\":\"12:00\"}]}''"

definition mixed_doc :: jv where
  "mixed_doc = document
     [JObj [(''id'', JStr ''k3f9''), (''employee'', JStr ''Bob''), (''day'', JStr ''Tuesday''),
            (''timeIn'', JStr ''08:00''), (''timeOut'', JStr ''12:00'')],
      JObj [(''id'', JStr ''z''), (''employee'', JStr ''Cy''), (''day'', JStr ''Funday''),
            (''timeIn'', JStr ''08:00''), (''timeOut'', JStr ''12:00'')]]"

definition sample_texts :: "(string \<times> jv) list" where
  "sample_texts =
     [(''{\"entries\":[]}'', empty_doc), (ann_text, ann_doc), (funday_text, funday_doc),
      (inf_text, inf_doc), (nulled_text, nulled_doc), (mixed_text, mixed_doc)]"

text \<open>
  A platform for the sample data. It parses the texts above (another text does not
  parse), and it writes compact JSON as \<^verbatim>\<open>JSON.stringify\<close> does with one argument: a
  number that is not finite is written as \<^verbatim>\<open>null\<close>. Its number formatting is that of
  the whole numbers of magnitude below \<open>10\<^sup>2\<^sup>1\<close>, where the digits are written in full;
  the sample data holds no other finite number.
\<close>

definition hex_digit :: "nat \<Rightarrow> char" where
  "hex_digit n = (if n < 10 then char_of (48 + n) else char_of (87 + n))"

definition quote_char :: "char \<Rightarrow> string" where
  "quote_char c =
     (let n = (of_char c :: nat)
      in if n = 8 then [CHR 0x5C, CHR ''b'']
         else if n = 9 then [CHR 0x5C, CHR ''t'']
         else if n = 10 then [CHR 0x5C, CHR ''n'']
         else if n = 12 then [CHR 0x5C, CHR ''f'']
         else if n = 13 then [CHR 0x5C, CHR ''r'']
         else if n = 34 then [CHR 0x5C, CHR 0x22]
         else if n = 92 then [CHR 0x5C, CHR 0x5C]
         else if n < 32 then [CHR 0x5C, CHR ''u'', CHR ''0'', CHR ''0'',
                              hex_digit (n div 16), hex_digit (n mod 16)]
         else [c])"

definition quote :: "string \<Rightarrow> string" where
  "quote s = CHR 0x22 # concat (map quote_char s) @ [CHR 0x22]"

fun write_jv :: "(rat \<Rightarrow> string) \<Rightarrow> jv \<Rightarrow> string"
  and write_elements :: "(rat \<Rightarrow> string) \<Rightarrow> jv list \<Rightarrow> string"
  and write_members :: "(rat \<Rightarrow> string) \<Rightarrow> (string \<times> jv) list \<Rightarrow> string" where
  "write_jv ns JNull = ''null''"
| "write_jv ns (JBool b) = (if b then ''true'' else ''false'')"
| "write_jv ns (JNum (Fin r)) = ns r"
| "write_jv ns (JNum PosInf) = ''null''"
| "write_jv ns (JNum NegInf) = ''null''"
| "write_jv ns (JStr s) = quote s"
| "write_jv ns (JArr xs) = ''['' @ write_elements ns xs @ '']''"
| "write_jv ns (JObj kvs) = ''{'' @ write_members ns kvs @ ''}''"
| "write_elements ns [] = []"
| "write_elements ns (x # xs) =
     write_jv ns x @ (if xs = [] then [] else '','' @ write_elements ns xs)"
| "write_members ns [] = []"
| "write_members ns (kv # kvs) =
     quote (fst kv) @ '':'' @ write_jv ns (snd kv) @
     (if kvs = [] then [] else '','' @ write_members ns kvs)"

definition show_whole :: "rat \<Rightarrow> string" where
  "show_whole r = (if r < 0 then ''-'' else []) @ show_nat (nat \<lfloor>\<bar>r\<bar>\<rfloor>)"

definition sample_platform :: platform where
  "sample_platform =
     \<lparr>JSON_parse = map_of sample_texts,
      JSON_stringify = write_jv show_whole,
      Number_toString = show_whole\<rparr>"

text \<open>The ids and time stamps that the sample runs draw.\<close>

definition sample_fresh :: "nat \<Rightarrow> string \<times> string" where
  "sample_fresh i = (''k3f9'' @ replicate i CHR ''x'', ''2024-01-01T09:00:00.000Z'')"

definition fresh_world :: world where
  "fresh_world = \<lparr>state = empty_doc, localStorage = None\<rparr>"

text \<open>A second entry with the id of \<open>six\<close>, and worlds that hold sample entries.\<close>

definition six_again :: jv where
  "six_again = stored ''a1'' ''Bob'' ''Tuesday'' ''10:00'' ''11:00''"

definition two_world :: world where
  "two_world = \<lparr>state = document [six, twelve], localStorage = None\<rparr>"

definition twice_world :: world where
  "twice_world = \<lparr>state = document [six, twelve, six_again], localStorage = None\<rparr>"

definition ann_world :: world where
  "ann_world = \<lparr>state = ann_doc, localStorage = Some ann_text\<rparr>"

text \<open>What the import makes of the candidate of \<open>inf_text\<close>.\<close>

definition inf_imported :: jv where
  "inf_imported =
     JObj [(''id'', JStr ''k3f9''), (''employee'', JStr ''Ann''), (''day'', JStr ''Monday''),
           (''timeIn'', JNum PosInf), (''timeOut'', JStr ''17:30''), (''notes'', JStr []),
           (''createdAt'', JStr ''2024-01-01T09:00:00.000Z'')]"

definition inf_world :: world where
  "inf_world = \<lparr>state = document [inf_imported], localStorage = Some nulled_text\<rparr>"

section \<open>Durations\<close>

lemma valid_hhmm_cases:
  assumes "valid_hhmm t"
  obtains h1 h2 m1 m2 where "t = [h1, h2, CHR '':'', m1, m2]"
    "is_digit h1" "is_digit h2" "is_digit m1" "is_digit m2"
  using assms unfolding valid_hhmm_def
  by (auto split: list.splits)

lemma is_digit_not_colon: "is_digit c \<Longrightarrow> c \<noteq> CHR '':''"
  by (auto simp: is_digit_def)

lemma Number_str_two:
  "is_digit a \<Longrightarrow> is_digit b \<Longrightarrow> Number_str [a, b] = Some (10 * digit_val a + digit_val b)"
  by (simp add: Number_str_def dec_val_def)

lemma timeToMinutes_valid:
  assumes "valid_hhmm t"
  shows "timeToMinutes t = Some (minutes_since_midnight t)"
proof -
  from assms obtain h1 h2 m1 m2 where t: "t = [h1, h2, CHR '':'', m1, m2]"
    and d: "is_digit h1" "is_digit h2" "is_digit m1" "is_digit m2"
    by (rule valid_hhmm_cases)
  have "split CHR '':'' t = [[h1, h2], [m1, m2]]"
    using d by (simp add: t split_def is_digit_not_colon)
  then show ?thesis
    using d by (simp add: timeToMinutes_def Number_str_two minutes_since_midnight_def t)
qed

lemma round_double_2: "round_double 2 = 2"
  by code_simp

lemma timeToMinutes_2300: "timeToMinutes ''23:00'' = Some 1380"
  by code_simp

lemma timeToMinutes_0100: "timeToMinutes ''01:00'' = Some 60"
  by code_simp

text \<open>
  C1. For valid \<^verbatim>\<open>HH:MM\<close> strings, \<^verbatim>\<open>computeHours\<close> is the duration of the
  specification: the minutes of each time are \<open>hour * 60 + minute\<close>, the difference
  gets 1440 added when it is negative, and the result is that number divided by 60, in
  the arithmetic of the code whatever its rounding \<open>rnd\<close>. In doubles, from 23:00 to
  01:00 it is 2, and from a time to the same time it is 0.
\<close>

theorem computeHours_duration:
  "(valid_hhmm timeIn \<and> valid_hhmm timeOut \<longrightarrow>
      computeHours rnd timeIn timeOut = Some (durationHours_spec rnd timeIn timeOut)) \<and>
   computeHours round_double ''23:00'' ''01:00'' = Some 2 \<and>
   (valid_hhmm t \<longrightarrow> computeHours round_double t t = Some 0)"
proof (intro conjI impI)
  assume "valid_hhmm timeIn \<and> valid_hhmm timeOut"
  then show "computeHours rnd timeIn timeOut = Some (durationHours_spec rnd timeIn timeOut)"
    by (simp add: computeHours_def durationHours_spec_def timeToMinutes_valid Let_def)
next
  show "computeHours round_double ''23:00'' ''01:00'' = Some 2"
    by (simp add: computeHours_def timeToMinutes_2300 timeToMinutes_0100 round_double_2)
next
  assume "valid_hhmm t"
  then show "computeHours round_double t t = Some 0"
    by (simp add: computeHours_def timeToMinutes_valid round_double_def)
qed

lemma valid_0900: "valid_hhmm ''09:00''"
  by code_simp

lemma valid_1730: "valid_hhmm ''17:30''"
  by code_simp

lemma duration_0900_1730: "durationHours_spec round_double ''09:00'' ''17:30'' = 17 / 2"
  by code_simp

theorem computeHours_duration_witness:
  "valid_hhmm ''09:00'' \<and> valid_hhmm ''17:30'' \<and>
   computeHours round_double ''09:00'' ''17:30'' = Some (17 / 2) \<and>
   computeHours round_double ''09:00'' ''09:00'' = Some 0"
  using computeHours_duration [where timeIn = "''09:00''" and timeOut = "''17:30''"
      and rnd = round_double and t = "''09:00''"]
    valid_0900 valid_1730 duration_0900_1730
  by simp

section \<open>Rounding to doubles\<close>













section \<open>The totals on the page\<close>

lemma get_pget: "e \<noteq> JNull \<Longrightarrow> get e k = Inr (pget e k)"
  by (cases e) (simp_all add: pget_def)
























section \<open>Store: loading\<close>

lemma entries_of_SomeD:
  assumes "entries_of st = Some es"
  obtains kvs where "st = JObj kvs" "map_of kvs ''entries'' = Some (JArr es)"
  using assms
  by (cases st) (auto simp: entries_of_def split: option.splits jv.splits if_splits)

lemma entries_of_set_entries:
  "entries_of st = Some es \<Longrightarrow> entries_of (set_entries st es') = Some es'"
  by (erule entries_of_SomeD) (simp add: entries_of_def update_conv')

lemma set_entries_same:
  "entries_of st = Some es \<Longrightarrow> set_entries st es = st"
  by (erule entries_of_SomeD) (simp add: update_triv)

lemma entries_of_empty_doc: "entries_of empty_doc = Some []"
  by (simp add: entries_of_def empty_doc_def)

lemma state_saveState: "state (saveState P w) = state w"
  by (simp add: saveState_def)

lemma loadState_parsed:
  "(case get parsed ''entries'' of
      Inl err \<Rightarrow> Inr empty_doc
    | Inr p \<Rightarrow> if \<not> truthy p \<or> \<not> isArray p then Inr empty_doc else Inr parsed) =
   (Inr (case entries_of parsed of None \<Rightarrow> empty_doc | Some es \<Rightarrow> parsed) :: error + jv)"
proof (cases parsed)
  case (JObj kvs)
  show ?thesis
  proof (cases "map_of kvs ''entries''")
    case None
    then show ?thesis by (simp add: JObj entries_of_def)
  next
    case (Some v)
    then show ?thesis by (cases v) (simp_all add: JObj entries_of_def)
  qed
qed (simp_all add: entries_of_def)

lemma loadState_cases:
  "loadState P raw =
     Inr (case raw of
            None \<Rightarrow> empty_doc
          | Some r \<Rightarrow>
              if r = [] then empty_doc
              else (case JSON_parse P r of
                      None \<Rightarrow> empty_doc
                    | Some parsed \<Rightarrow>
                        (case entries_of parsed of None \<Rightarrow> empty_doc | Some es \<Rightarrow> parsed)))"
proof (cases raw)
  case None
  then show ?thesis by (simp add: loadState_def loadState_try_def)
next
  case (Some r)
  show ?thesis
  proof (cases "JSON_parse P r")
    case None
    then show ?thesis by (simp add: Some loadState_def loadState_try_def)
  next
    case (Some parsed)
    have "loadState P raw =
        (if r = [] then Inr empty_doc
         else (case get parsed ''entries'' of
                 Inl err \<Rightarrow> Inr empty_doc
               | Inr p \<Rightarrow> if \<not> truthy p \<or> \<not> isArray p then Inr empty_doc else Inr parsed))"
      using \<open>raw = Some r\<close> Some
      by (simp add: loadState_def loadState_try_def split: sum.splits)
    then show ?thesis
      using \<open>raw = Some r\<close> Some by (simp add: loadState_parsed)
  qed
qed

text \<open>
  C5. \<^verbatim>\<open>loadState\<close> returns a document for every stored item, and never an
  exception. It returns the empty document when there is no item (or the empty text),
  when the item does not parse, and when what it parses to has no array under
  \<^verbatim>\<open>entries\<close>; otherwise it returns the parsed value.
\<close>

theorem loadState_total:
  "(\<exists>st. loadState P raw = Inr st) \<and>
   ((raw = None \<or> raw = Some [] \<or>
     (\<exists>r. raw = Some r \<and> JSON_parse P r = None) \<or>
     (\<exists>r parsed. raw = Some r \<and> JSON_parse P r = Some parsed \<and> entries_of parsed = None)) \<longrightarrow>
    loadState P raw = Inr empty_doc) \<and>
   (\<forall>r parsed es. raw = Some r \<and> r \<noteq> [] \<and> JSON_parse P r = Some parsed \<and>
        entries_of parsed = Some es \<longrightarrow> loadState P raw = Inr parsed)"
  by (auto simp: loadState_cases)

lemma parse_not_json: "JSON_parse sample_platform ''not json'' = None"
  by code_simp

lemma parse_funday: "JSON_parse sample_platform funday_text = Some funday_doc"
  by code_simp

lemma entries_of_funday: "entries_of funday_doc = Some [JObj [(''day'', JStr ''Funday'')]]"
  by code_simp

lemma funday_text_nonempty: "funday_text \<noteq> []"
  by code_simp

theorem loadState_total_witness:
  "JSON_parse sample_platform ''not json'' = None \<and>
   loadState sample_platform (Some ''not json'') = Inr empty_doc \<and>
   JSON_parse sample_platform funday_text = Some funday_doc \<and>
   loadState sample_platform (Some funday_text) = Inr funday_doc"
  using loadState_total [of sample_platform "Some ''not json''"]
    loadState_total [of sample_platform "Some funday_text"]
    parse_not_json parse_funday entries_of_funday funday_text_nonempty
  by simp

lemma loadState_has_entries:
  "loadState P raw = Inr st \<Longrightarrow> \<exists>es. entries_of st = Some es"
  by (auto simp: loadState_cases entries_of_empty_doc split: option.splits if_splits)

section \<open>Store: adding\<close>

text \<open>
  C6. When the employee is empty after trimming, or timeIn or timeOut is empty, the
  submit handler shows one alert and leaves the state and the storage as they were: no
  entry is appended.
\<close>

theorem submit_rejects_incomplete:
  assumes "trim employee = [] \<or> timeIn = [] \<or> timeOut = []"
  shows "snd (submit P fresh employee day timeIn timeOut notes w) = w \<and>
         (\<exists>msg. fst (submit P fresh employee day timeIn timeOut notes w) = [Alert msg])"
  using assms by (auto simp: submit_def)

lemma trim_blank: "trim ''  '' = []"
  by code_simp

theorem submit_rejects_incomplete_witness:
  "trim ''  '' = [] \<and>
   snd (submit sample_platform (sample_fresh 0) ''  '' ''Monday'' ''09:00'' ''17:00'' []
          fresh_world) = fresh_world"
  using submit_rejects_incomplete [of "''  ''" "''09:00''" "''17:00''" sample_platform
      "sample_fresh 0" "''Monday''" "[]" fresh_world] trim_blank
  by simp

section \<open>Store: removing\<close>

lemma filterE_id_is_not:
  "JNull \<notin> set es \<Longrightarrow> filterE (id_is_not ident) es = Inr (filter (\<lambda>e. \<not> has_id ident e) es)"
  by (induction es) (auto simp: id_is_not_def has_id_def get_pget)

lemma filterE_subset: "filterE p es = Inr es' \<Longrightarrow> set es' \<subseteq> set es"
  by (induction es arbitrary: es') (auto split: sum.splits if_splits)

lemma findE_id_is:
  "JNull \<notin> set es \<Longrightarrow> findE (id_is ident) es = Inr (find (has_id ident) es)"
  by (induction es) (auto simp: id_is_def has_id_def get_pget)

lemma render_events_no_alert: "Alert m \<notin> set (render_events st)"
  by (simp add: render_events_def split: sum.splits)

lemma deleteEntry_confirmed:
  assumes "entries_of (state w) = Some es" "JNull \<notin> set es"
  shows "deleteEntry P True ident w =
    (Asked ConfirmDelete #
       render_events (set_entries (state w) (filter (\<lambda>e. \<not> has_id ident e) es)),
     saveState P (w\<lparr>state := set_entries (state w) (filter (\<lambda>e. \<not> has_id ident e) es)\<rparr>))"
  using assms by (simp add: deleteEntry_def filterE_id_is_not Let_def state_saveState)

text \<open>
  C9. On a document whose entries are not \<^verbatim>\<open>null\<close>, a confirmed \<^verbatim>\<open>deleteEntry\<close>
  leaves the entries whose id differs from the given one, in their order, and removes
  the others. When no entry has the id, the document stays as it is and no alert is
  shown.
\<close>

theorem deleteEntry_removes_matching:
  assumes "entries_of (state w) = Some es" and "JNull \<notin> set es"
  shows "entries_of (state (snd (deleteEntry P True ident w))) =
           Some (filter (\<lambda>e. \<not> has_id ident e) es) \<and>
         ((\<forall>e \<in> set es. \<not> has_id ident e) \<longrightarrow>
            state (snd (deleteEntry P True ident w)) = state w \<and>
            (\<forall>m. Alert m \<notin> set (fst (deleteEntry P True ident w))))"
proof -
  have "(\<forall>e \<in> set es. \<not> has_id ident e) \<Longrightarrow> filter (\<lambda>e. \<not> has_id ident e) es = es"
    by (simp add: filter_id_conv)
  then show ?thesis
    using assms
    by (auto simp: deleteEntry_confirmed entries_of_set_entries set_entries_same
        render_events_no_alert state_saveState)
qed

lemma two_entries: "entries_of (state two_world) = Some [six, twelve]"
  by code_simp

lemma two_not_null: "JNull \<notin> set [six, twelve]"
  by (simp add: six_def twelve_def stored_def)

lemma two_without_a1: "filter (\<lambda>e. \<not> has_id ''a1'' e) [six, twelve] = [twelve]"
  by code_simp

lemma two_without_zz: "\<not> has_id ''zz'' six \<and> \<not> has_id ''zz'' twelve"
  by code_simp

theorem deleteEntry_removes_matching_witness:
  "entries_of (state two_world) = Some [six, twelve] \<and> JNull \<notin> set [six, twelve] \<and>
   entries_of (state (snd (deleteEntry sample_platform True ''a1'' two_world))) = Some [twelve] \<and>
   \<not> has_id ''zz'' six \<and> \<not> has_id ''zz'' twelve \<and>
   state (snd (deleteEntry sample_platform True ''zz'' two_world)) = state two_world"
  using deleteEntry_removes_matching [OF two_entries two_not_null, of sample_platform "''a1''"]
    deleteEntry_removes_matching [OF two_entries two_not_null, of sample_platform "''zz''"]
    two_entries two_not_null two_without_a1 two_without_zz
  by simp

text \<open>
  C10. A confirmed \<^verbatim>\<open>deleteEntry\<close> keeps exactly the entries whose id differs from the
  given one: every entry with the id goes, however many there are, and the number of
  entries falls by their number.
\<close>

theorem deleteEntry_removes_every_duplicate:
  assumes "entries_of (state w) = Some es" and "JNull \<notin> set es"
  shows "\<exists>es'. entries_of (state (snd (deleteEntry P True ident w))) = Some es' \<and>
           es' = filter (\<lambda>e. \<not> has_id ident e) es \<and>
           (\<forall>e \<in> set es'. \<not> has_id ident e) \<and>
           length es' + length (filter (has_id ident) es) = length es"
  using assms
  by (simp add: deleteEntry_confirmed entries_of_set_entries state_saveState
      sum_length_filter_compl add.commute)

lemma twice_entries: "entries_of (state twice_world) = Some [six, twelve, six_again]"
  by code_simp

lemma twice_not_null: "JNull \<notin> set [six, twelve, six_again]"
  by (simp add: six_def twelve_def six_again_def stored_def)

lemma twice_without_a1:
  "filter (\<lambda>e. \<not> has_id ''a1'' e) [six, twelve, six_again] = [twelve]"
  by code_simp

theorem deleteEntry_removes_every_duplicate_witness:
  "entries_of (state twice_world) = Some [six, twelve, six_again] \<and>
   JNull \<notin> set [six, twelve, six_again] \<and>
   has_id ''a1'' six \<and> has_id ''a1'' six_again \<and>
   entries_of (state (snd (deleteEntry sample_platform True ''a1'' twice_world))) = Some [twelve]"
proof -
  have h: "has_id ''a1'' six \<and> has_id ''a1'' six_again"
    by code_simp
  obtain es' where
    "entries_of (state (snd (deleteEntry sample_platform True ''a1'' twice_world))) = Some es'"
    "es' = filter (\<lambda>e. \<not> has_id ''a1'' e) [six, twelve, six_again]"
    using deleteEntry_removes_every_duplicate [OF twice_entries twice_not_null,
        of sample_platform "''a1''"]
    by blast
  then have "entries_of (state (snd (deleteEntry sample_platform True ''a1'' twice_world))) =
      Some [twelve]"
    by (simp only: twice_without_a1)
  then show ?thesis
    using h twice_entries twice_not_null by blast
qed

section \<open>Store: editing\<close>

lemma find_has_id:
  "\<exists>e \<in> set es. has_id ident e \<Longrightarrow>
     \<exists>entry. find (has_id ident) es = Some entry \<and> entry \<in> set es \<and> has_id ident entry"
  by (induction es) auto

lemma has_id_truthy: "has_id ident e \<Longrightarrow> truthy (Val e)"
  by (cases e) (simp_all add: has_id_def pget_def)

text \<open>
  C8. On a document whose entries are not \<^verbatim>\<open>null\<close> and that has an entry with the
  given id, \<^verbatim>\<open>editEntry\<close> first fills the form with the employee, day, timeIn, timeOut
  and notes of the first such entry (the empty string for notes that are missing), and
  the state it leaves has no entry with the id any more, before anything is submitted
  again. When no entry has the id, it leaves the document as it is and fills nothing.
\<close>

theorem editEntry_removes_and_prefills:
  assumes "entries_of (state w) = Some es" and "JNull \<notin> set es"
  shows "((\<exists>e \<in> set es. has_id ident e) \<longrightarrow>
            (\<exists>entry evs.
               find (has_id ident) es = Some entry \<and> entry \<in> set es \<and> has_id ident entry \<and>
               fst (editEntry P ident w) =
                 Prefill (Draft (pget entry ''employee'') (pget entry ''day'')
                            (pget entry ''timeIn'') (pget entry ''timeOut'')
                            (or_else (pget entry ''notes'') (Val (JStr [])))) # evs \<and>
               entries_of (state (snd (editEntry P ident w))) =
                 Some (filter (\<lambda>e. \<not> has_id ident e) es) \<and>
               entry \<notin> set (filter (\<lambda>e. \<not> has_id ident e) es))) \<and>
         ((\<forall>e \<in> set es. \<not> has_id ident e) \<longrightarrow> editEntry P ident w = ([], w))"
proof (intro conjI impI)
  assume "\<exists>e \<in> set es. has_id ident e"
  then obtain entry where e: "find (has_id ident) es = Some entry" "entry \<in> set es"
    "has_id ident entry"
    using find_has_id by blast
  have "editEntry P ident w =
      (Prefill (draft_of entry) #
         render_events (set_entries (state w) (filter (\<lambda>e. \<not> has_id ident e) es)),
       saveState P (w\<lparr>state := set_entries (state w) (filter (\<lambda>e. \<not> has_id ident e) es)\<rparr>))"
    using assms e
    by (simp add: editEntry_def findE_id_is filterE_id_is_not has_id_truthy Let_def
        state_saveState)
  then show "\<exists>entry evs.
               find (has_id ident) es = Some entry \<and> entry \<in> set es \<and> has_id ident entry \<and>
               fst (editEntry P ident w) =
                 Prefill (Draft (pget entry ''employee'') (pget entry ''day'')
                            (pget entry ''timeIn'') (pget entry ''timeOut'')
                            (or_else (pget entry ''notes'') (Val (JStr [])))) # evs \<and>
               entries_of (state (snd (editEntry P ident w))) =
                 Some (filter (\<lambda>e. \<not> has_id ident e) es) \<and>
               entry \<notin> set (filter (\<lambda>e. \<not> has_id ident e) es)"
    using assms e
    by (simp add: draft_of_def entries_of_set_entries state_saveState)
next
  assume "\<forall>e \<in> set es. \<not> has_id ident e"
  then have "find (has_id ident) es = None"
    by (simp add: find_None_iff)
  then show "editEntry P ident w = ([], w)"
    using assms by (simp add: editEntry_def findE_id_is)
qed

lemma two_find_a1: "find (has_id ''a1'') [six, twelve] = Some six"
  by code_simp

lemma six_fields:
  "Draft (pget six ''employee'') (pget six ''day'') (pget six ''timeIn'') (pget six ''timeOut'')
     (or_else (pget six ''notes'') (Val (JStr []))) =
   Draft (Val (JStr ''Ann'')) (Val (JStr ''Monday'')) (Val (JStr ''09:00''))
     (Val (JStr ''09:06'')) (Val (JStr []))"
  by code_simp

theorem editEntry_removes_and_prefills_witness:
  "entries_of (state two_world) = Some [six, twelve] \<and> JNull \<notin> set [six, twelve] \<and>
   has_id ''a1'' six \<and>
   hd (fst (editEntry sample_platform ''a1'' two_world)) =
     Prefill (Draft (Val (JStr ''Ann'')) (Val (JStr ''Monday'')) (Val (JStr ''09:00''))
                (Val (JStr ''09:06'')) (Val (JStr []))) \<and>
   entries_of (state (snd (editEntry sample_platform ''a1'' two_world))) = Some [twelve] \<and>
   editEntry sample_platform ''zz'' two_world = ([], two_world)"
proof -
  have a: "has_id ''a1'' six"
    by code_simp
  then have "\<exists>e \<in> set [six, twelve]. has_id ''a1'' e"
    by simp
  then obtain entry evs where
    "find (has_id ''a1'') [six, twelve] = Some entry"
    "fst (editEntry sample_platform ''a1'' two_world) =
       Prefill (Draft (pget entry ''employee'') (pget entry ''day'') (pget entry ''timeIn'')
                  (pget entry ''timeOut'') (or_else (pget entry ''notes'') (Val (JStr [])))) # evs"
    "entries_of (state (snd (editEntry sample_platform ''a1'' two_world))) =
       Some (filter (\<lambda>e. \<not> has_id ''a1'' e) [six, twelve])"
    using editEntry_removes_and_prefills [OF two_entries two_not_null,
        of "''a1''" sample_platform]
    by blast
  moreover have "editEntry sample_platform ''zz'' two_world = ([], two_world)"
    using editEntry_removes_and_prefills [OF two_entries two_not_null,
        of "''zz''" sample_platform] two_without_zz
    by simp
  ultimately show ?thesis
    using a two_entries two_not_null two_find_a1 six_fields two_without_a1 by simp
qed

section \<open>Store: importing\<close>

lemma mapE_Inr:
  "mapE f i xs = Inr ys \<Longrightarrow> list_all2 (\<lambda>x y. \<exists>j. f j x = Inr y) xs ys"
proof (induction xs arbitrary: i ys)
  case Nil
  then show ?case by simp
next
  case (Cons x xs)
  then show ?case
    by (auto split: sum.splits)
qed

lemma cleaned_Inr:
  "cleaned P fresh cands = Inr cl \<Longrightarrow>
     list_all2 (\<lambda>x e. \<exists>j. sanitize P (fresh j) x = Inr e) (filter keep cands) cl"
  unfolding cleaned_def by (drule mapE_Inr) simp

lemma importHandler_parsed:
  assumes "JSON_parse P raw_text = Some parsed" and "entries_of parsed = Some cands"
  shows "importHandler P fresh ok (FileText raw_text) w =
     (case cleaned P fresh cands of
        Inl err \<Rightarrow> ([Alert import_failed], w)
      | Inr cl \<Rightarrow>
          if \<not> ok then ([Asked (ConfirmImport (length cl))], w)
          else (case entries_of (state w) of
                  None \<Rightarrow> ([Asked (ConfirmImport (length cl)), Alert import_failed], w)
                | Some es \<Rightarrow>
                    (let w' = saveState P (w\<lparr>state := set_entries (state w) (es @ cl)\<rparr>)
                     in (Asked (ConfirmImport (length cl)) #
                           (case render (state w') of
                              Inl err \<Rightarrow> [Alert import_failed]
                            | Inr t \<Rightarrow> []),
                         w'))))"
proof -
  from assms(2) obtain kvs where "parsed = JObj kvs" "map_of kvs ''entries'' = Some (JArr cands)"
    by (rule entries_of_SomeD)
  then show ?thesis
    using assms(1) by (simp add: importHandler_def)
qed

lemma keep_iff:
  "keep x \<longleftrightarrow>
     truthy (Val x) \<and> is_weekday (pget x ''day'') \<and> truthy (pget x ''employee'') \<and>
     truthy (pget x ''timeIn'') \<and> truthy (pget x ''timeOut'')"
  by (simp add: keep_def is_weekday_def)

lemma keep_not_funday: "pget x ''day'' = Val (JStr ''Funday'') \<Longrightarrow> \<not> keep x"
  by (simp add: keep_iff is_weekday_def DAYS_def)

lemma pget_not_Fn: "k \<noteq> ''entries'' \<Longrightarrow> pget x k \<noteq> Fn"
  by (cases x) (simp_all add: pget_def split: option.splits)

lemma truthy_Val: "truthy p \<Longrightarrow> p \<noteq> Fn \<Longrightarrow> \<exists>v. p = Val v"
  by (cases p) simp_all

lemma sanitize_fields:
  assumes "keep x" and "sanitize P fr x = Inr e"
  shows "pget e ''day'' = pget x ''day'' \<and>
         pget e ''timeIn'' = pget x ''timeIn'' \<and>
         pget e ''timeOut'' = pget x ''timeOut'' \<and>
         pget e ''id'' = or_else (pget x ''id'') (Val (JStr (fst fr))) \<and>
         (\<exists>s. pget e ''employee'' = Val (JStr s) \<and> String_pv P (pget x ''employee'') = Inr s)"
proof -
  obtain d where d: "pget x ''day'' = Val (JStr d)"
    using assms(1) by (auto simp: keep_def split: pv.splits jv.splits)
  obtain a where a: "pget x ''timeIn'' = Val a"
    using assms(1) truthy_Val [of "pget x ''timeIn''"] pget_not_Fn [of "''timeIn''" x]
    by (auto simp: keep_def)
  obtain b where b: "pget x ''timeOut'' = Val b"
    using assms(1) truthy_Val [of "pget x ''timeOut''"] pget_not_Fn [of "''timeOut''" x]
    by (auto simp: keep_def)
  have "\<exists>i. or_else (pget x ''id'') (Val (JStr (fst fr))) = Val i"
    using truthy_Val [of "pget x ''id''"] pget_not_Fn [of "''id''" x]
    by (cases "truthy (pget x ''id'')") (simp_all add: or_else_def)
  then obtain i where i: "or_else (pget x ''id'') (Val (JStr (fst fr))) = Val i" ..
  obtain emp nts c where e: "String_pv P (pget x ''employee'') = Inr emp"
    "e = JObj ([(''id'', i), (''employee'', JStr emp), (''day'', JStr d), (''timeIn'', a),
               (''timeOut'', b), (''notes'', JStr nts)] @ c)"
    using assms(2) by (auto simp: sanitize_def d a b i field_def split: sum.splits if_splits)
  have "pget e ''day'' = Val (JStr d)" "pget e ''timeIn'' = Val a" "pget e ''timeOut'' = Val b"
    "pget e ''id'' = Val i" "pget e ''employee'' = Val (JStr emp)"
    by (simp_all add: e(2) pget_def)
  then show ?thesis
    by (simp add: e(1) d a b i)
qed

lemma cleaned_kept:
  assumes "cleaned P fresh cands = Inr cl"
  shows "list_all2
           (\<lambda>x e. (\<exists>j. sanitize P (fresh j) x = Inr e) \<and>
                   pget e ''day'' = pget x ''day'' \<and>
                   pget e ''timeIn'' = pget x ''timeIn'' \<and>
                   pget e ''timeOut'' = pget x ''timeOut'' \<and>
                   (truthy (pget x ''id'') \<longrightarrow> pget e ''id'' = pget x ''id''))
           (filter keep cands) cl"
proof (rule list.rel_mono_strong [OF cleaned_Inr [OF assms]])
  fix x e
  assume "x \<in> set (filter keep cands)" and "\<exists>j. sanitize P (fresh j) x = Inr e"
  then obtain j where k: "keep x" and s: "sanitize P (fresh j) x = Inr e"
    by auto
  from sanitize_fields [OF k s] s
  show "(\<exists>j. sanitize P (fresh j) x = Inr e) \<and>
        pget e ''day'' = pget x ''day'' \<and>
        pget e ''timeIn'' = pget x ''timeIn'' \<and>
        pget e ''timeOut'' = pget x ''timeOut'' \<and>
        (truthy (pget x ''id'') \<longrightarrow> pget e ''id'' = pget x ''id'')"
    by (auto simp: or_else_def)
qed

text \<open>
  C2. Let the document hold the entries \<open>E\<close>, and let the file parse to a value with an
  array of candidates under \<^verbatim>\<open>entries\<close>. Then the entries after the import are \<open>E\<close>
  followed by what was appended, so no entry of \<open>E\<close> is touched or moved. What the
  import offers is computed from the candidates alone, never from \<open>E\<close>: one entry for
  each candidate that passes the filter, in order, with the candidate's day, timeIn and
  timeOut and with its id when it has one, whether or not \<open>E\<close> holds that id already. A
  candidate passes exactly when it is truthy, its day is one of the seven labels and its
  employee, timeIn and timeOut are truthy; one with the day \<^verbatim>\<open>Funday\<close> never passes.
  The confirmation names the number of these entries, and once confirmed exactly they
  are appended; declined, or when a conversion throws, nothing changes.
\<close>

theorem importHandler_additive:
  assumes "entries_of (state w) = Some E"
    and "JSON_parse P raw_text = Some parsed"
    and "entries_of parsed = Some cands"
  shows "(\<exists>app. entries_of (state (snd (importHandler P fresh ok (FileText raw_text) w))) =
                  Some (E @ app)) \<and>
         (\<forall>err. cleaned P fresh cands = Inl err \<longrightarrow>
            importHandler P fresh ok (FileText raw_text) w = ([Alert import_failed], w)) \<and>
         (\<forall>cl. cleaned P fresh cands = Inr cl \<longrightarrow>
            list_all2
              (\<lambda>x e. (\<exists>j. sanitize P (fresh j) x = Inr e) \<and>
                      pget e ''day'' = pget x ''day'' \<and>
                      pget e ''timeIn'' = pget x ''timeIn'' \<and>
                      pget e ''timeOut'' = pget x ''timeOut'' \<and>
                      (truthy (pget x ''id'') \<longrightarrow> pget e ''id'' = pget x ''id''))
              (filter keep cands) cl \<and>
            (\<exists>evs. fst (importHandler P fresh ok (FileText raw_text) w) =
                     Asked (ConfirmImport (length cl)) # evs) \<and>
            (if ok
             then entries_of (state (snd (importHandler P fresh ok (FileText raw_text) w))) =
                    Some (E @ cl)
             else snd (importHandler P fresh ok (FileText raw_text) w) = w)) \<and>
         (\<forall>x. keep x \<longleftrightarrow>
                truthy (Val x) \<and> is_weekday (pget x ''day'') \<and> truthy (pget x ''employee'') \<and>
                truthy (pget x ''timeIn'') \<and> truthy (pget x ''timeOut'')) \<and>
         (\<forall>x. pget x ''day'' = Val (JStr ''Funday'') \<longrightarrow> \<not> keep x)"
proof (cases "cleaned P fresh cands")
  case (Inl err)
  then show ?thesis
    using assms keep_iff keep_not_funday by (simp add: importHandler_parsed)
next
  case (Inr cl)
  note k = cleaned_kept [OF Inr]
  show ?thesis
  proof (cases ok)
    case True
    have "snd (importHandler P fresh ok (FileText raw_text) w) =
            saveState P (w\<lparr>state := set_entries (state w) (E @ cl)\<rparr>)"
      and "\<exists>evs. fst (importHandler P fresh ok (FileText raw_text) w) =
                     Asked (ConfirmImport (length cl)) # evs"
      using assms Inr True by (simp_all add: importHandler_parsed Let_def)
    then show ?thesis
      using assms(1) Inr True k keep_iff keep_not_funday
      by (simp add: state_saveState entries_of_set_entries)
  next
    case False
    have "importHandler P fresh ok (FileText raw_text) w =
            ([Asked (ConfirmImport (length cl))], w)"
      using assms Inr False by (simp add: importHandler_parsed)
    then show ?thesis
      using assms(1) Inr False k keep_iff keep_not_funday by simp
  qed
qed

lemma ann_entries:
  "entries_of (state ann_world) = Some [stored ''k3f9'' ''Ann'' ''Monday'' ''09:00'' ''17:30'']"
  by code_simp

lemma parse_mixed: "JSON_parse sample_platform mixed_text = Some mixed_doc"
  by code_simp

lemma mixed_entries:
  "entries_of mixed_doc =
     Some [JObj [(''id'', JStr ''k3f9''), (''employee'', JStr ''Bob''), (''day'', JStr ''Tuesday''),
                 (''timeIn'', JStr ''08:00''), (''timeOut'', JStr ''12:00'')],
           JObj [(''id'', JStr ''z''), (''employee'', JStr ''Cy''), (''day'', JStr ''Funday''),
                 (''timeIn'', JStr ''08:00''), (''timeOut'', JStr ''12:00'')]]"
  by code_simp

lemma mixed_cleaned:
  "cleaned sample_platform sample_fresh
     [JObj [(''id'', JStr ''k3f9''), (''employee'', JStr ''Bob''), (''day'', JStr ''Tuesday''),
            (''timeIn'', JStr ''08:00''), (''timeOut'', JStr ''12:00'')],
      JObj [(''id'', JStr ''z''), (''employee'', JStr ''Cy''), (''day'', JStr ''Funday''),
            (''timeIn'', JStr ''08:00''), (''timeOut'', JStr ''12:00'')]] =
   Inr [stored ''k3f9'' ''Bob'' ''Tuesday'' ''08:00'' ''12:00'']"
  by code_simp

theorem importHandler_additive_witness:
  "entries_of (state ann_world) = Some [stored ''k3f9'' ''Ann'' ''Monday'' ''09:00'' ''17:30''] \<and>
   JSON_parse sample_platform mixed_text = Some mixed_doc \<and>
   entries_of (state (snd (importHandler sample_platform sample_fresh True (FileText mixed_text)
                             ann_world))) =
     Some [stored ''k3f9'' ''Ann'' ''Monday'' ''09:00'' ''17:30'',
           stored ''k3f9'' ''Bob'' ''Tuesday'' ''08:00'' ''12:00''] \<and>
   snd (importHandler sample_platform sample_fresh False (FileText mixed_text) ann_world) =
     ann_world"
proof -
  have "entries_of (state (snd (importHandler sample_platform sample_fresh True
                                  (FileText mixed_text) ann_world))) =
          Some ([stored ''k3f9'' ''Ann'' ''Monday'' ''09:00'' ''17:30''] @
                [stored ''k3f9'' ''Bob'' ''Tuesday'' ''08:00'' ''12:00''])"
    using importHandler_additive [OF ann_entries parse_mixed mixed_entries,
        of sample_fresh True] mixed_cleaned
    by (simp only: if_True)
  moreover have "snd (importHandler sample_platform sample_fresh False (FileText mixed_text)
                        ann_world) = ann_world"
    using importHandler_additive [OF ann_entries parse_mixed mixed_entries,
        of sample_fresh False] mixed_cleaned
    by (simp only: if_False)
  ultimately show ?thesis
    using ann_entries parse_mixed by simp
qed

section \<open>Runs of the program\<close>

lemma submit_entries:
  assumes "entries_of (state w) = Some es"
  shows "snd (submit P fresh employee d a b n w) = w \<or>
         (trim employee \<noteq> [] \<and> a \<noteq> [] \<and> b \<noteq> [] \<and>
          entries_of (state (snd (submit P fresh employee d a b n w))) =
            Some (es @ [JObj [(''id'', JStr (fst fresh)), (''employee'', JStr (trim employee)),
                              (''day'', JStr d), (''timeIn'', JStr a), (''timeOut'', JStr b),
                              (''notes'', JStr (trim n)), (''createdAt'', JStr (snd fresh))]]))"
  using assms
  by (simp add: submit_def addEntry_def Let_def state_saveState entries_of_set_entries)

lemma deleteEntry_entries:
  assumes "entries_of (state w) = Some es"
  shows "snd (deleteEntry P ok ident w) = w \<or>
         (\<exists>es'. entries_of (state (snd (deleteEntry P ok ident w))) = Some es' \<and>
                set es' \<subseteq> set es)"
proof (cases "filterE (id_is_not ident) es")
  case (Inl err)
  then show ?thesis using assms by (simp add: deleteEntry_def)
next
  case (Inr es')
  then show ?thesis
    using assms filterE_subset [OF Inr]
    by (simp add: deleteEntry_def Let_def state_saveState entries_of_set_entries)
qed

lemma editEntry_entries:
  assumes "entries_of (state w) = Some es"
  shows "snd (editEntry P ident w) = w \<or>
         (\<exists>es'. entries_of (state (snd (editEntry P ident w))) = Some es' \<and> set es' \<subseteq> set es)"
proof (cases "filterE (id_is_not ident) es")
  case (Inl err)
  then show ?thesis
    using assms by (simp add: editEntry_def split: sum.splits option.splits)
next
  case (Inr es')
  then show ?thesis
    using assms filterE_subset [OF Inr]
    by (simp add: editEntry_def Let_def state_saveState entries_of_set_entries
        split: sum.splits option.splits)
qed

lemma clearAll_entries:
  "snd (clearAll P ok w) = w \<or> entries_of (state (snd (clearAll P ok w))) = Some []"
  by (simp add: clearAll_def Let_def state_saveState entries_of_empty_doc)

lemma importHandler_unparsed:
  assumes "candidates P picked = None"
  shows "snd (importHandler P fresh ok picked w) = w"
proof (cases picked)
  case (FileText raw_text)
  show ?thesis
  proof (cases "JSON_parse P raw_text")
    case None
    then show ?thesis by (simp add: FileText importHandler_def)
  next
    case (Some parsed)
    then have "entries_of parsed = None"
      using assms by (simp add: FileText candidates_def)
    then show ?thesis
      using Some
      by (auto simp: FileText importHandler_def entries_of_def
          split: sum.splits pv.splits jv.splits)
  qed
qed (simp_all add: importHandler_def)

lemma importHandler_entries:
  assumes "entries_of (state w) = Some es"
  shows "snd (importHandler P fresh ok picked w) = w \<or>
         (\<exists>cands cl. candidates P picked = Some cands \<and> cleaned P fresh cands = Inr cl \<and>
            entries_of (state (snd (importHandler P fresh ok picked w))) = Some (es @ cl))"
proof (cases "candidates P picked")
  case None
  then show ?thesis by (simp add: importHandler_unparsed)
next
  case (Some cands)
  then obtain raw_text parsed where p: "picked = FileText raw_text"
    "JSON_parse P raw_text = Some parsed" "entries_of parsed = Some cands"
    by (auto simp: candidates_def split: file_input.splits option.splits)
  show ?thesis
    using assms Some
    by (simp add: p(1) importHandler_parsed [OF p(2,3)] Let_def state_saveState
        entries_of_set_entries split: sum.splits)
qed

lemma cleaned_elements:
  assumes "cleaned P fresh cands = Inr cl" and "e \<in> set cl"
  shows "\<exists>x j. x \<in> set cands \<and> keep x \<and> sanitize P (fresh j) x = Inr e"
proof -
  from assms(2) obtain n where n: "n < length cl" "cl ! n = e"
    by (auto simp: in_set_conv_nth)
  let ?x = "filter keep cands ! n"
  have l: "list_all2 (\<lambda>x e. \<exists>j. sanitize P (fresh j) x = Inr e) (filter keep cands) cl"
    by (rule cleaned_Inr [OF assms(1)])
  then have "n < length (filter keep cands)"
    using n(1) by (simp add: list_all2_lengthD)
  then have "?x \<in> set (filter keep cands)"
    by (rule nth_mem)
  then have "?x \<in> set cands" "keep ?x" by simp_all
  moreover have "\<exists>j. sanitize P (fresh j) ?x = Inr e"
    using list_all2_nthD2 [OF l n(1)] n(2) by simp
  ultimately show ?thesis by blast
qed

text \<open>
  A property that every entry of the form has, and every entry that the import makes of
  a candidate of one of the files, is kept by each handler, and so by every run.
\<close>

lemma step_invariant:
  assumes "step P D F w w'"
    and "entries_of (state w) = Some es" and "\<forall>e \<in> set es. Q e"
    and added: "\<And>i emp d a b n c. d \<in> D \<Longrightarrow> emp \<noteq> [] \<Longrightarrow> a \<noteq> [] \<Longrightarrow> b \<noteq> [] \<Longrightarrow>
       Q (JObj [(''id'', JStr i), (''employee'', JStr emp), (''day'', JStr d),
                (''timeIn'', JStr a), (''timeOut'', JStr b), (''notes'', JStr n),
                (''createdAt'', JStr c)])"
    and imported: "\<And>picked cands x fr e. picked \<in> F \<Longrightarrow> candidates P picked = Some cands \<Longrightarrow>
       x \<in> set cands \<Longrightarrow> keep x \<Longrightarrow> sanitize P fr x = Inr e \<Longrightarrow> Q e"
  shows "\<exists>es'. entries_of (state w') = Some es' \<and> (\<forall>e \<in> set es'. Q e)"
  using assms(1)
proof cases
  case (step_submit d fresh employee a b n)
  then show ?thesis
    using submit_entries [OF assms(2), of P fresh employee d a b n] assms(2,3) added
    by auto
next
  case (step_delete ok ident)
  then show ?thesis
    using deleteEntry_entries [OF assms(2), of P ok ident] assms(2,3) by auto
next
  case (step_edit ident)
  then show ?thesis
    using editEntry_entries [OF assms(2), of P ident] assms(2,3) by auto
next
  case (step_import picked freshs ok)
  from importHandler_entries [OF assms(2), of P freshs ok picked]
  show ?thesis
  proof
    assume "snd (importHandler P freshs ok picked w) = w"
    then show ?thesis
      using step_import(1) assms(2,3) by auto
  next
    assume "\<exists>cands cl. candidates P picked = Some cands \<and> cleaned P freshs cands = Inr cl \<and>
      entries_of (state (snd (importHandler P freshs ok picked w))) = Some (es @ cl)"
    then obtain cands cl where c: "candidates P picked = Some cands"
      "cleaned P freshs cands = Inr cl"
      "entries_of (state (snd (importHandler P freshs ok picked w))) = Some (es @ cl)"
      by blast
    have "Q e" if m: "e \<in> set cl" for e
    proof -
      obtain x j where "x \<in> set cands" "keep x" "sanitize P (freshs j) x = Inr e"
        using cleaned_elements [OF c(2) m] by blast
      then show ?thesis
        using imported [OF step_import(2) c(1)] by blast
    qed
    then have "\<forall>e \<in> set (es @ cl). Q e"
      using assms(3) by auto
    then show ?thesis
      using c(3) step_import(1) by blast
  qed
next
  case (step_clear ok)
  then show ?thesis
    using clearAll_entries [of P ok w] assms(2,3) by auto
qed

lemma steps_invariant:
  assumes "(step P D F)\<^sup>*\<^sup>* w0 w"
    and "\<exists>es. entries_of (state w0) = Some es \<and> (\<forall>e \<in> set es. Q e)"
    and added: "\<And>i emp d a b n c. d \<in> D \<Longrightarrow> emp \<noteq> [] \<Longrightarrow> a \<noteq> [] \<Longrightarrow> b \<noteq> [] \<Longrightarrow>
       Q (JObj [(''id'', JStr i), (''employee'', JStr emp), (''day'', JStr d),
                (''timeIn'', JStr a), (''timeOut'', JStr b), (''notes'', JStr n),
                (''createdAt'', JStr c)])"
    and imported: "\<And>picked cands x fr e. picked \<in> F \<Longrightarrow> candidates P picked = Some cands \<Longrightarrow>
       x \<in> set cands \<Longrightarrow> keep x \<Longrightarrow> sanitize P fr x = Inr e \<Longrightarrow> Q e"
  shows "\<exists>es. entries_of (state w) = Some es \<and> (\<forall>e \<in> set es. Q e)"
  using assms(1,2)
proof (induction rule: rtranclp_induct)
  case base
  then show ?case .
next
  case (step y z)
  then obtain es where "entries_of (state y) = Some es" "\<forall>e \<in> set es. Q e"
    by blast
  then show ?case
    using step_invariant [OF step.hyps(2), of es Q] added imported by blast
qed

lemma boot_fresh: "boot sample_platform None = Inr fresh_world"
  by code_simp

section \<open>Saving and loading\<close>

lemma import_inf:
  "snd (importHandler sample_platform sample_fresh True (FileText inf_text) fresh_world) =
     inf_world"
  by code_simp

lemma reachable_inf: "reachable sample_platform (set DAYS) UNIV None inf_world"
proof -
  have "step sample_platform (set DAYS) UNIV fresh_world
      (snd (importHandler sample_platform sample_fresh True (FileText inf_text) fresh_world))"
    by (rule step_import) simp
  then have "(step sample_platform (set DAYS) UNIV)\<^sup>*\<^sup>* fresh_world inf_world"
    by (simp only: import_inf r_into_rtranclp)
  then show ?thesis
    using boot_fresh unfolding reachable_def by blast
qed

lemma save_inf: "saveState sample_platform inf_world = inf_world"
  by code_simp

lemma load_nulled: "loadState sample_platform (Some nulled_text) = Inr nulled_doc"
  by code_simp

lemma nulled_differs: "nulled_doc \<noteq> document [inf_imported]"
  by code_simp

text \<open>
  C3 fails on the code. Importing a file whose entry has the timeIn \<^verbatim>\<open>1e400\<close> into the
  empty document stores that entry with the number infinity as its timeIn: the filter of
  the import asks for a truthy timeIn, and the entry it makes keeps the value as it is,
  where it turns employee and notes into strings. Saving writes \<^verbatim>\<open>null\<close> for the
  infinity, so loading what was saved returns an entry whose timeIn is \<^verbatim>\<open>null\<close>:
  another document than the one saved.
\<close>

theorem save_load_loses_infinity:
  "reachable sample_platform (set DAYS) UNIV None inf_world \<and>
   state inf_world = document [inf_imported] \<and>
   saveState sample_platform inf_world = inf_world \<and>
   loadState sample_platform (localStorage (saveState sample_platform inf_world)) =
     Inr nulled_doc \<and>
   nulled_doc \<noteq> state inf_world"
proof -
  have l: "localStorage inf_world = Some nulled_text"
    by (simp add: inf_world_def)
  have "state inf_world = document [inf_imported]"
    by (simp add: inf_world_def)
  moreover have "loadState sample_platform (localStorage (saveState sample_platform inf_world)) =
     Inr nulled_doc"
    by (simp only: save_inf l load_nulled)
  moreover have "nulled_doc \<noteq> state inf_world"
    using nulled_differs by (simp add: inf_world_def)
  ultimately show ?thesis
    using reachable_inf save_inf by blast
qed

section \<open>The entries of the store\<close>

lemma entry_valid_added:
  assumes "d \<in> set DAYS" "emp \<noteq> []" "a \<noteq> []" "b \<noteq> []"
  shows "entry_valid (JObj [(''id'', JStr i), (''employee'', JStr emp), (''day'', JStr d),
                            (''timeIn'', JStr a), (''timeOut'', JStr b), (''notes'', JStr n),
                            (''createdAt'', JStr c)])"
  using assms by (simp add: entry_valid_def pget_def nonempty_string_def is_weekday_def)

lemma weekday_sanitized:
  assumes "keep x" and "sanitize P fr x = Inr e"
  shows "is_weekday (pget e ''day'')"
  using sanitize_fields [OF assms] assms(1) by (simp add: keep_iff)

lemma truthy_string:
  assumes "is_string p" and "truthy p"
  obtains s where "p = Val (JStr s)" "s \<noteq> []"
proof -
  from assms(1) obtain s where "p = Val (JStr s)"
    by (auto simp: is_string_def split: pv.splits jv.splits)
  then show ?thesis
    using assms(2) that by simp
qed

lemma entry_valid_sanitized:
  assumes "keep x" and "typed_candidate x" and "sanitize P fr x = Inr e"
  shows "entry_valid e"
proof -
  have k: "is_weekday (pget x ''day'')" "truthy (pget x ''employee'')"
    "truthy (pget x ''timeIn'')" "truthy (pget x ''timeOut'')"
    using assms(1) by (simp_all add: keep_iff)
  have t: "is_string (pget x ''employee'')" "is_string (pget x ''timeIn'')"
    "is_string (pget x ''timeOut'')"
    using assms(2) by (simp_all add: typed_candidate_def)
  obtain emp where emp: "pget x ''employee'' = Val (JStr emp)" "emp \<noteq> []"
    using t(1) k(2) by (rule truthy_string)
  obtain a where a: "pget x ''timeIn'' = Val (JStr a)" "a \<noteq> []"
    using t(2) k(3) by (rule truthy_string)
  obtain b where b: "pget x ''timeOut'' = Val (JStr b)" "b \<noteq> []"
    using t(3) k(4) by (rule truthy_string)
  have "String_pv P (pget x ''employee'') = Inr emp"
    by (simp add: emp(1) String_pv_def)
  then have "pget e ''employee'' = Val (JStr emp)"
    using sanitize_fields [OF assms(1,3)] by auto
  moreover have "pget e ''timeIn'' = Val (JStr a)" "pget e ''timeOut'' = Val (JStr b)"
    "pget e ''day'' = pget x ''day''"
    using sanitize_fields [OF assms(1,3)] a(1) b(1) by simp_all
  ultimately show ?thesis
    using k(1) emp(2) a(2) b(2) by (simp add: entry_valid_def nonempty_string_def)
qed

lemma typed_file_kept:
  assumes "typed_file P picked" and "candidates P picked = Some cands"
    and "x \<in> set cands" and "keep x"
  shows "typed_candidate x"
  using assms by (simp add: typed_file_def list_all_iff)

lemma boot_loads_valid:
  assumes "loads_valid P raw" and "boot P raw = Inr w0"
  shows "\<exists>es. entries_of (state w0) = Some es \<and> (\<forall>e \<in> set es. entry_valid e)"
  using assms
  by (auto simp: loads_valid_def boot_def list_all_iff split: sum.splits option.splits)

lemma entry_valid_weekday: "entry_valid e \<Longrightarrow> is_weekday (pget e ''day'')"
  by (simp add: entry_valid_def)

lemma funday_invalid: "\<not> entry_valid (JObj [(''day'', JStr ''Funday'')])"
  by code_simp

lemma boot_funday:
  "boot sample_platform (Some funday_text) =
     Inr \<lparr>state = funday_doc, localStorage = Some funday_text\<rparr>"
  by code_simp

text \<open>
  C7, as the specification states it, fails. \<^verbatim>\<open>loadState\<close> takes the entries of the
  storage as they are: a stored document whose entry has nothing but the day
  \<^verbatim>\<open>Funday\<close> becomes the state when the script starts.
\<close>

theorem stored_entries_counterexample:
  "reachable sample_platform (set DAYS) UNIV (Some funday_text)
     \<lparr>state = funday_doc, localStorage = Some funday_text\<rparr> \<and>
   entries_of funday_doc = Some [JObj [(''day'', JStr ''Funday'')]] \<and>
   \<not> entry_valid (JObj [(''day'', JStr ''Funday'')])"
proof -
  have "reachable sample_platform (set DAYS) UNIV (Some funday_text)
          \<lparr>state = funday_doc, localStorage = Some funday_text\<rparr>"
    using boot_funday unfolding reachable_def by blast
  then show ?thesis
    using entries_of_funday funday_invalid by blast
qed

text \<open>
  C7, amended. Let the storage at the start be empty or hold only valid entries, and let
  every submission of the form carry one of the seven labels as its day (the day control
  supplies it; the script does not check it). Then the day of every entry of every
  reachable state is one of the seven labels, whatever files are imported. And when
  every imported file is typed as the data model types an entry (the candidates that
  pass the filter of the import have strings as employee, timeIn and timeOut), then in
  every reachable state the employee, timeIn and timeOut of every entry are non-empty
  strings as well.
\<close>

theorem stored_entries_invariant:
  assumes "loads_valid P raw"
  shows "(reachable P (set DAYS) UNIV raw w \<longrightarrow>
            (\<exists>es. entries_of (state w) = Some es \<and>
                  (\<forall>e \<in> set es. is_weekday (pget e ''day'')))) \<and>
         (reachable P (set DAYS) {picked. typed_file P picked} raw w \<longrightarrow>
            (\<exists>es. entries_of (state w) = Some es \<and> (\<forall>e \<in> set es. entry_valid e)))"
proof (intro conjI impI)
  assume "reachable P (set DAYS) UNIV raw w"
  then obtain w0 where b: "boot P raw = Inr w0"
    and s: "(step P (set DAYS) UNIV)\<^sup>*\<^sup>* w0 w"
    by (auto simp: reachable_def)
  have "\<exists>es. entries_of (state w0) = Some es \<and> (\<forall>e \<in> set es. is_weekday (pget e ''day''))"
    using boot_loads_valid [OF assms b] entry_valid_weekday by blast
  from steps_invariant [OF s this]
  show "\<exists>es. entries_of (state w) = Some es \<and> (\<forall>e \<in> set es. is_weekday (pget e ''day''))"
    using entry_valid_added entry_valid_weekday weekday_sanitized by blast
next
  assume "reachable P (set DAYS) {picked. typed_file P picked} raw w"
  then obtain w0 where b: "boot P raw = Inr w0"
    and s: "(step P (set DAYS) {picked. typed_file P picked})\<^sup>*\<^sup>* w0 w"
    by (auto simp: reachable_def)
  have v: "entry_valid e"
    if "picked \<in> {picked. typed_file P picked}" "candidates P picked = Some cands"
      "x \<in> set cands" "keep x" "sanitize P fr x = Inr e" for picked cands x fr e
  proof -
    have "typed_file P picked" using that(1) by simp
    then have "typed_candidate x"
      using that(2,3,4) by (rule typed_file_kept)
    with that(4) show ?thesis
      using that(5) by (rule entry_valid_sanitized)
  qed
  from steps_invariant [OF s boot_loads_valid [OF assms b]]
  show "\<exists>es. entries_of (state w) = Some es \<and> (\<forall>e \<in> set es. entry_valid e)"
    using entry_valid_added v by blast
qed

lemma ann_loads_valid: "loads_valid sample_platform (Some ann_text)"
  by code_simp

lemma ann_typed_file: "typed_file sample_platform (FileText ann_text)"
  by code_simp

lemma boot_ann: "boot sample_platform (Some ann_text) = Inr ann_world"
  by code_simp

lemma import_ann_entries:
  "entries_of (state (snd (importHandler sample_platform sample_fresh True (FileText ann_text)
                             ann_world))) =
     Some [stored ''k3f9'' ''Ann'' ''Monday'' ''09:00'' ''17:30'',
           stored ''k3f9'' ''Ann'' ''Monday'' ''09:00'' ''17:30'']"
  by code_simp

lemma reachable_import_ann:
  assumes "FileText ann_text \<in> F"
  shows "reachable sample_platform (set DAYS) F (Some ann_text)
           (snd (importHandler sample_platform sample_fresh True (FileText ann_text) ann_world))"
proof -
  have "step sample_platform (set DAYS) F ann_world
      (snd (importHandler sample_platform sample_fresh True (FileText ann_text) ann_world))"
    using assms by (rule step_import)
  then show ?thesis
    using boot_ann unfolding reachable_def by blast
qed

theorem stored_entries_invariant_witness:
  "loads_valid sample_platform (Some ann_text) \<and>
   typed_file sample_platform (FileText ann_text) \<and>
   reachable sample_platform (set DAYS) {picked. typed_file sample_platform picked}
     (Some ann_text)
     (snd (importHandler sample_platform sample_fresh True (FileText ann_text) ann_world)) \<and>
   reachable sample_platform (set DAYS) UNIV (Some ann_text)
     (snd (importHandler sample_platform sample_fresh True (FileText ann_text) ann_world)) \<and>
   entries_of (state (snd (importHandler sample_platform sample_fresh True (FileText ann_text)
                             ann_world))) =
     Some [stored ''k3f9'' ''Ann'' ''Monday'' ''09:00'' ''17:30'',
           stored ''k3f9'' ''Ann'' ''Monday'' ''09:00'' ''17:30''] \<and>
   entry_valid (stored ''k3f9'' ''Ann'' ''Monday'' ''09:00'' ''17:30'') \<and>
   is_weekday (pget (stored ''k3f9'' ''Ann'' ''Monday'' ''09:00'' ''17:30'') ''day'')"
proof -
  let ?w = "snd (importHandler sample_platform sample_fresh True (FileText ann_text) ann_world)"
  let ?ann = "stored ''k3f9'' ''Ann'' ''Monday'' ''09:00'' ''17:30''"
  have r: "reachable sample_platform (set DAYS) {picked. typed_file sample_platform picked}
             (Some ann_text) ?w"
    "reachable sample_platform (set DAYS) UNIV (Some ann_text) ?w"
    using ann_typed_file by (simp_all add: reachable_import_ann)
  note inv = stored_entries_invariant [OF ann_loads_valid, of ?w]
  obtain es where "entries_of (state ?w) = Some es" "\<forall>e \<in> set es. entry_valid e"
    using inv r(1) by blast
  then have v: "entry_valid ?ann"
    using import_ann_entries by auto
  obtain es' where "entries_of (state ?w) = Some es'"
    "\<forall>e \<in> set es'. is_weekday (pget e ''day'')"
    using inv r(2) by blast
  then have d: "is_weekday (pget ?ann ''day'')"
    using import_ann_entries by auto
  show ?thesis
    using ann_loads_valid ann_typed_file r import_ann_entries v d by blast
qed

end
